theory Spec2Isabelle
  imports Complex_Main
begin

section \<open>Python values, dictionaries and the object store\<close>

text \<open>
  The module \<^verbatim>\<open>benchmark_utils/init_solver.py\<close> has one module-level dictionary
  (\<^verbatim>\<open>OPTIMIZERS\<close>) and two functions, \<^verbatim>\<open>get_grad_op\<close> and \<^verbatim>\<open>initialize_opt\<close>. The classes
  it instantiates (\<^verbatim>\<open>POGM\<close>, \<^verbatim>\<open>ForwardBackward\<close>, \<^verbatim>\<open>Condat\<close>, \<^verbatim>\<open>Identity\<close>, \<^verbatim>\<open>GradAnalysis\<close>,
  \<^verbatim>\<open>GradSynthesis\<close>) belong to external libraries: an instantiation is modelled as the
  record of the call, that is the class together with the keyword arguments it receives.
  Whether the constructor then returns an object or raises is decided by the library, not
  by this module: the functions \<open>get_grad_op\<close> and \<open>initialize_opt\<close> below compute the call
  the module makes (or the exception raised before any call), and \<open>get_grad_op_outcome\<close> and
  \<open>initialize_opt_outcome\<close> give what the Python functions return or raise, with the
  library's constructors as a parameter.

  Scalars that travel through keyword dictionaries are values of \<open>pyval\<close>. A float literal
  is represented by its decimal value (\<^verbatim>\<open>0.96\<close> is \<open>PyFloat (96 / 100)\<close>); \<open>PyObj\<close> is a
  reference to an object the module never looks into (a metric callable, for instance).
\<close>

datatype pyval = PyNone | PyBool bool | PyInt int | PyFloat rat | PyStr string | PyObj nat

text \<open>
  The keys of the dictionaries of this module are strings or \<^verbatim>\<open>None\<close> (the table
  \<^verbatim>\<open>OPTIMIZERS\<close> has a \<^verbatim>\<open>None\<close> key); the same type stands for the argument \<^verbatim>\<open>opt_name\<close>
  and for \<^verbatim>\<open>grad_formulation\<close>. A dictionary is an association list in insertion order;
  Python keeps its keys pairwise different.
\<close>

type_synonym key = "string option"
type_synonym dict = "(key \<times> pyval) list"

definition dict_del :: "key \<Rightarrow> dict \<Rightarrow> dict" where
  "dict_del k d = filter (\<lambda>kv. fst kv \<noteq> k) d"

text \<open>
  Dictionaries are mutable objects shared with the caller, so they live in a store, a map
  from addresses to contents. A local variable holding a dictionary is a reference: to an
  object of the store, or to a dictionary created by \<^verbatim>\<open>dict()\<close> during the call, which no
  caller can reach and which is therefore kept with the variable.
\<close>

type_synonym addr = nat
type_synonym store = "addr \<Rightarrow> dict"

datatype dref = Ref addr | Fresh dict

definition deref :: "store \<Rightarrow> dref \<Rightarrow> dict" where
  "deref s r = (case r of Ref a \<Rightarrow> s a | Fresh d \<Rightarrow> d)"

text \<open>\<^verbatim>\<open>d.pop(k, default)\<close>: the value of \<open>k\<close> and its removal, or the default and no change.\<close>

definition dict_pop :: "dref \<Rightarrow> key \<Rightarrow> pyval \<Rightarrow> store \<Rightarrow> pyval \<times> dref \<times> store" where
  "dict_pop r k dflt s =
     (case map_of (deref s r) k of
        None \<Rightarrow> (dflt, r, s)
      | Some v \<Rightarrow>
          (case r of
             Ref a \<Rightarrow> (v, Ref a, s(a := dict_del k (s a)))
           | Fresh d \<Rightarrow> (v, Fresh (dict_del k d), s)))"

text \<open>
  \<^verbatim>\<open>kw = kw or dict()\<close> for an argument that is \<^verbatim>\<open>None\<close> or a dictionary: \<^verbatim>\<open>None\<close> and the
  empty dictionary are falsy, and are replaced by a new empty dictionary.
\<close>

definition or_dict :: "store \<Rightarrow> addr option \<Rightarrow> dref" where
  "or_dict s r =
     (case r of
        None \<Rightarrow> Fresh []
      | Some a \<Rightarrow> if s a = [] then Fresh [] else Ref a)"

section \<open>The module-level table\<close>

text \<open>
  \<^verbatim>\<open>OPTIMIZERS = {"pogm": "synthesis", "fista": "analysis", "condat-vu": "analysis", None: None}\<close>
  The name is bound to a dictionary object of the store, at \<open>OPTIMIZERS_addr\<close>.
\<close>

definition OPTIMIZERS :: dict where
  "OPTIMIZERS =
     [(Some ''pogm'', PyStr ''synthesis''),
      (Some ''fista'', PyStr ''analysis''),
      (Some ''condat-vu'', PyStr ''analysis''),
      (None, PyNone)]"

definition OPTIMIZERS_addr :: addr where
  "OPTIMIZERS_addr = 0"

section \<open>Arrays and operators\<close>

datatype dtype = Complex64 | Complex128 | Float32 | Float64

record ndarray =
  arr_shape :: "nat list"
  arr_dtype :: dtype
  arr_data :: "complex list"

text \<open>\<^verbatim>\<open>np.zeros(shape, dtype=...)\<close> and \<^verbatim>\<open>np.squeeze\<close> (which drops the axes of length one).\<close>

definition np_zeros :: "nat list \<Rightarrow> dtype \<Rightarrow> ndarray" where
  "np_zeros sh dt = \<lparr>arr_shape = sh, arr_dtype = dt, arr_data = replicate (prod_list sh) 0\<rparr>"

definition np_squeeze :: "ndarray \<Rightarrow> ndarray" where
  "np_squeeze a = a\<lparr>arr_shape := filter (\<lambda>d. d \<noteq> 1) (arr_shape a)\<rparr>"

text \<open>
  The attributes the module reads from the operators it is given. A Fourier operator has a
  number of coils and an image shape (array dimensions, hence naturals). A linear operator
  has the two methods \<^verbatim>\<open>op\<close> and \<^verbatim>\<open>adj_op\<close>. A proximity operator is only passed on.
  Of a gradient operator the module reads \<^verbatim>\<open>fourier_op\<close>, \<^verbatim>\<open>inv_spec_rad\<close> and, when
  \<^verbatim>\<open>hasattr(grad_op, "linear_op")\<close> holds, \<^verbatim>\<open>linear_op\<close>: the field \<open>grad_linear_op\<close> is
  \<open>None\<close> when the object has no such attribute.
\<close>

record fourier_op =
  n_coils :: nat
  shape :: "nat list"

record linear_op =
  op :: "ndarray \<Rightarrow> ndarray"
  adj_op :: "ndarray \<Rightarrow> ndarray"

datatype prox_op = ProxOp nat

record grad_op =
  grad_fourier_op :: fourier_op
  grad_linear_op :: "linear_op option"
  inv_spec_rad :: pyval

definition hasattr_linear_op :: "grad_op \<Rightarrow> bool" where
  "hasattr_linear_op g = (grad_linear_op g \<noteq> None)"

section \<open>get_grad_op\<close>

text \<open>
  The result of \<open>get_grad_op\<close> is the constructor call the function makes: the class and the
  arguments \<^verbatim>\<open>linear_op\<close>, \<^verbatim>\<open>fourier_op\<close>, \<^verbatim>\<open>verbose\<close> and \<^verbatim>\<open>**kwargs\<close>. Python collects
  \<^verbatim>\<open>**kwargs\<close> itself, so it never holds one of the named parameters. When
  \<^verbatim>\<open>grad_formulation\<close> is neither string the function falls off its end and returns
  \<^verbatim>\<open>None\<close>. HOL functions have no default arguments: a caller that omits \<^verbatim>\<open>linear_op\<close> or
  \<^verbatim>\<open>verbose\<close> passes the defaults \<open>None\<close> and \<open>PyBool False\<close>. What the constructor does with
  the call (the library's \<^verbatim>\<open>GradSynthesis\<close> uses \<^verbatim>\<open>linear_op\<close> while it is constructed, and
  raises when it is \<^verbatim>\<open>None\<close>) is the matter of \<open>get_grad_op_outcome\<close>.
\<close>

datatype grad_instance =
    GradAnalysis fourier_op pyval dict
  | GradSynthesis "linear_op option" fourier_op pyval dict

definition get_grad_op ::
  "fourier_op \<Rightarrow> key \<Rightarrow> linear_op option \<Rightarrow> pyval \<Rightarrow> dict \<Rightarrow> grad_instance option" where
  "get_grad_op fourier_op grad_formulation linear_op verbose kwargs =
     (if grad_formulation = Some ''analysis'' then
        Some (GradAnalysis fourier_op verbose kwargs)
      else if grad_formulation = Some ''synthesis'' then
        Some (GradSynthesis linear_op fourier_op verbose kwargs)
      else None)"

section \<open>initialize_opt\<close>

text \<open>
  The exceptions: \<^verbatim>\<open>ValueError\<close> with its message, \<^verbatim>\<open>UnboundLocalError\<close> with the name of the
  variable, \<^verbatim>\<open>TypeError\<close> and \<^verbatim>\<open>AttributeError\<close>. The module's own code raises the first
  three; a constructor of the library may raise any of them.
\<close>

datatype error = ValueError string | UnboundLocalError string | TypeError | AttributeError

datatype arg =
    Arr ndarray
  | Grad grad_op
  | Prox prox_op
  | Lin linear_op
  | Identity
  | Val pyval

datatype opt_class = POGM | ForwardBackward | Condat

datatype optimizer = Instance opt_class "(string \<times> arg) list"

text \<open>
  A call \<^verbatim>\<open>C(k1=v1, ..., **d1, **d2)\<close>: the keys of an unpacked dictionary must be strings,
  and no keyword may be given twice; otherwise Python raises \<^verbatim>\<open>TypeError\<close> and the
  constructor is not entered. \<open>Instance c kws\<close> is the call that enters the constructor of
  class \<open>c\<close> with the keyword arguments \<open>kws\<close>; it says nothing of what the constructor
  does with them.
\<close>

fun unpack :: "dict \<Rightarrow> error + (string \<times> arg) list" where
  "unpack [] = Inr []"
| "unpack ((None, v) # d) = Inl TypeError"
| "unpack ((Some k, v) # d) =
     (case unpack d of
        Inl e \<Rightarrow> Inl e
      | Inr kws \<Rightarrow> Inr ((k, Val v) # kws))"

definition py_call :: "opt_class \<Rightarrow> (string \<times> arg) list \<Rightarrow> dict \<Rightarrow> dict \<Rightarrow> error + optimizer" where
  "py_call c explicit d1 d2 =
     (case unpack (d1 @ d2) of
        Inl e \<Rightarrow> Inl e
      | Inr kws \<Rightarrow>
          if distinct (map fst (explicit @ kws)) then Inr (Instance c (explicit @ kws))
          else Inl TypeError)"

text \<open>\<^verbatim>\<open>str(opt_name)\<close> inside the f-string of the error message.\<close>

definition py_str :: "key \<Rightarrow> string" where
  "py_str k = (case k of None \<Rightarrow> ''None'' | Some s \<Rightarrow> s)"

text \<open>Lines 55 to 61: the default of \<^verbatim>\<open>x_init\<close>.\<close>

definition default_x_init :: "grad_op \<Rightarrow> ndarray option \<Rightarrow> ndarray" where
  "default_x_init grad_op x_init =
     (case x_init of
        None \<Rightarrow>
          np_squeeze
            (np_zeros (n_coils (grad_fourier_op grad_op) # shape (grad_fourier_op grad_op))
               Complex64)
      | Some a \<Rightarrow> a)"

text \<open>
  Lines 63 to 68: the conditional that binds \<^verbatim>\<open>alpha_init\<close> or rebinds \<^verbatim>\<open>x_init\<close>. The
  result is the pair of the two local variables; \<open>None\<close> for \<^verbatim>\<open>alpha_init\<close> means that the
  name is unbound.
\<close>

definition init_values ::
  "grad_op \<Rightarrow> linear_op \<Rightarrow> ndarray \<Rightarrow> bool \<Rightarrow> ndarray option \<times> ndarray" where
  "init_values grad_op linear_op x_init synthesis_init =
     (if \<not> synthesis_init \<and> hasattr_linear_op grad_op then
        (Some (op (the (grad_linear_op grad_op)) x_init), x_init)
      else if synthesis_init \<and> \<not> hasattr_linear_op grad_op then
        (None, adj_op linear_op x_init)
      else if \<not> synthesis_init \<and> hasattr_linear_op grad_op then
        (Some x_init, x_init)
      else (None, x_init))"

text \<open>
  Lines 69 to 117. Keyword arguments are evaluated from left to right: reading an unbound
  \<^verbatim>\<open>alpha_init\<close> raises before any \<^verbatim>\<open>pop\<close>, and both \<^verbatim>\<open>pop\<close>s run before the two
  dictionaries are unpacked. The function returns its result, or the exception it raises,
  together with the store it leaves.
\<close>

definition dispatch ::
  "key \<Rightarrow> grad_op \<Rightarrow> linear_op \<Rightarrow> prox_op \<Rightarrow> ndarray option \<times> ndarray \<Rightarrow>
   addr option \<Rightarrow> addr option \<Rightarrow> store \<Rightarrow> (error + optimizer) \<times> store" where
  "dispatch opt_name grad_op linear_op prox_op vals opt_kwargs metric_kwargs s =
     (let alpha_init = fst vals;
          x_init = snd vals;
          opt_kwargs = or_dict s opt_kwargs;
          metric_kwargs = or_dict s metric_kwargs;
          beta = inv_spec_rad grad_op
      in
        if opt_name = Some ''pogm'' then
          (case alpha_init of
             None \<Rightarrow> (Inl (UnboundLocalError ''alpha_init''), s)
           | Some alpha \<Rightarrow>
               (case dict_pop opt_kwargs (Some ''sigma_bar'') (PyFloat (96 / 100)) s of
                  (sigma_bar, opt_kwargs, s) \<Rightarrow>
               (case dict_pop opt_kwargs (Some ''auto_iterate'') (PyBool False) s of
                  (auto_iterate, opt_kwargs, s) \<Rightarrow>
                 (py_call POGM
                    [(''u'', Arr alpha), (''x'', Arr alpha), (''y'', Arr alpha), (''z'', Arr alpha),
                     (''grad'', Grad grad_op), (''prox'', Prox prox_op),
                     (''linear'', Lin linear_op), (''beta_param'', Val beta),
                     (''sigma_bar'', Val sigma_bar), (''auto_iterate'', Val auto_iterate)]
                    (deref s opt_kwargs) (deref s metric_kwargs), s))))
        else if opt_name = Some ''fista'' then
          (case dict_pop opt_kwargs (Some ''lambda_param'') (PyFloat 1) s of
             (lambda_param, opt_kwargs, s) \<Rightarrow>
          (case dict_pop opt_kwargs (Some ''auto_iterate'') (PyBool False) s of
             (auto_iterate, opt_kwargs, s) \<Rightarrow>
            (py_call ForwardBackward
               [(''x'', Arr x_init), (''grad'', Grad grad_op), (''prox'', Prox prox_op),
                (''linear'', Lin linear_op), (''beta_param'', Val beta),
                (''lambda_param'', Val lambda_param), (''auto_iterate'', Val auto_iterate)]
               (deref s opt_kwargs) (deref s metric_kwargs), s)))
        else if opt_name = Some ''condat-vu'' then
          (let y_init = op linear_op x_init
           in (py_call Condat
                 [(''x'', Arr x_init), (''y'', Arr y_init), (''grad'', Grad grad_op),
                  (''prox'', Identity), (''prox_dual'', Prox prox_op),
                  (''linear'', Lin linear_op)]
                 (deref s opt_kwargs) (deref s metric_kwargs), s))
        else
          (Inl (ValueError (''Optimizer '' @ py_str opt_name @ '' not implemented'')), s))"

text \<open>
  The whole function. The defaults of the source are \<^verbatim>\<open>x_init=None\<close>,
  \<^verbatim>\<open>synthesis_init=False\<close>, \<^verbatim>\<open>opt_kwargs=None\<close> and \<^verbatim>\<open>metric_kwargs=None\<close>; a dictionary
  argument is the address of the caller's object.
\<close>

definition initialize_opt ::
  "key \<Rightarrow> grad_op \<Rightarrow> linear_op \<Rightarrow> prox_op \<Rightarrow> ndarray option \<Rightarrow> bool \<Rightarrow>
   addr option \<Rightarrow> addr option \<Rightarrow> store \<Rightarrow> (error + optimizer) \<times> store" where
  "initialize_opt opt_name grad_op linear_op prox_op x_init synthesis_init
       opt_kwargs metric_kwargs s =
     dispatch opt_name grad_op linear_op prox_op
       (init_values grad_op linear_op (default_x_init grad_op x_init) synthesis_init)
       opt_kwargs metric_kwargs s"

section \<open>The library as a parameter\<close>

text \<open>
  The constructors belong to the libraries \<^verbatim>\<open>modopt\<close> and \<^verbatim>\<open>mri\<close>, whose code is not part of
  this repository. A library is taken as a function from the call it receives to the
  object it returns or the exception it raises. \<^verbatim>\<open>get_grad_op\<close> returns what the constructor
  it calls returns, and \<^verbatim>\<open>None\<close> when it calls none; \<^verbatim>\<open>initialize_opt\<close> returns what the
  optimizer's constructor returns. An exception of a constructor leaves the function. A
  constructor receives the keyword arguments unpacked, so it cannot change the caller's
  dictionaries.
\<close>

definition get_grad_op_outcome ::
  "(grad_instance \<Rightarrow> error + 'g) \<Rightarrow> fourier_op \<Rightarrow> key \<Rightarrow> linear_op option \<Rightarrow> pyval \<Rightarrow> dict \<Rightarrow>
   error + 'g option" where
  "get_grad_op_outcome lib fourier_op grad_formulation linear_op verbose kwargs =
     (case get_grad_op fourier_op grad_formulation linear_op verbose kwargs of
        None \<Rightarrow> Inr None
      | Some call \<Rightarrow>
          (case lib call of
             Inl e \<Rightarrow> Inl e
           | Inr g \<Rightarrow> Inr (Some g)))"

definition initialize_opt_outcome ::
  "(optimizer \<Rightarrow> error + 'o) \<Rightarrow> key \<Rightarrow> grad_op \<Rightarrow> linear_op \<Rightarrow> prox_op \<Rightarrow> ndarray option \<Rightarrow>
   bool \<Rightarrow> addr option \<Rightarrow> addr option \<Rightarrow> store \<Rightarrow> (error + 'o) \<times> store" where
  "initialize_opt_outcome lib opt_name grad_op linear_op prox_op x_init synthesis_init
       opt_kwargs metric_kwargs s =
     (case initialize_opt opt_name grad_op linear_op prox_op x_init synthesis_init
             opt_kwargs metric_kwargs s of
        (Inl e, s') \<Rightarrow> (Inl e, s')
      | (Inr call, s') \<Rightarrow> (lib call, s'))"

section \<open>Vocabulary of the properties\<close>

text \<open>
  The notions below are read off the source to state the properties; the program does not
  compute them. \<open>valid_names\<close> are the three strings \<^verbatim>\<open>opt_name\<close> is compared with (lines 73,
  88 and 100); \<open>popped_keys\<close> are the keys a branch pops from \<^verbatim>\<open>opt_kwargs\<close> (lines 83, 84,
  95 and 96); \<open>explicit_keywords\<close> are the keywords a constructor call spells out (lines 75
  to 84, 90 to 96 and 105 to 110).
\<close>

definition valid_names :: "key set" where
  "valid_names = {Some ''pogm'', Some ''fista'', Some ''condat-vu''}"

definition popped_keys :: "key \<Rightarrow> key list" where
  "popped_keys opt_name =
     (if opt_name = Some ''pogm'' then [Some ''sigma_bar'', Some ''auto_iterate'']
      else if opt_name = Some ''fista'' then [Some ''lambda_param'', Some ''auto_iterate'']
      else [])"

definition explicit_keywords :: "key \<Rightarrow> string list" where
  "explicit_keywords opt_name =
     (if opt_name = Some ''pogm'' then
        [''u'', ''x'', ''y'', ''z'', ''grad'', ''prox'', ''linear'', ''beta_param'',
         ''sigma_bar'', ''auto_iterate'']
      else if opt_name = Some ''fista'' then
        [''x'', ''grad'', ''prox'', ''linear'', ''beta_param'', ''lambda_param'', ''auto_iterate'']
      else if opt_name = Some ''condat-vu'' then
        [''x'', ''y'', ''grad'', ''prox'', ''prox_dual'', ''linear'']
      else [])"

text \<open>
  The contents of an optional dictionary argument (\<^verbatim>\<open>None\<close> counts as empty), the pairs
  that remain in a dictionary once the keys of the branch are popped, the store once they
  are popped from \<^verbatim>\<open>opt_kwargs\<close>, and the pairs the two unpackings \<^verbatim>\<open>**opt_kwargs\<close> and
  \<^verbatim>\<open>**metric_kwargs\<close> then contribute (the second is read after the pops, which matters when
  both arguments are the same object).
\<close>

definition dict_arg :: "store \<Rightarrow> addr option \<Rightarrow> dict" where
  "dict_arg s r = (case r of None \<Rightarrow> [] | Some a \<Rightarrow> s a)"

definition remaining :: "key \<Rightarrow> dict \<Rightarrow> dict" where
  "remaining opt_name d = filter (\<lambda>kv. fst kv \<notin> set (popped_keys opt_name)) d"

definition popped_store :: "key \<Rightarrow> store \<Rightarrow> addr option \<Rightarrow> store" where
  "popped_store opt_name s r =
     (case r of None \<Rightarrow> s | Some a \<Rightarrow> s(a := remaining opt_name (s a)))"

definition forwarded :: "key \<Rightarrow> store \<Rightarrow> addr option \<Rightarrow> addr option \<Rightarrow> dict" where
  "forwarded opt_name s opt_kwargs metric_kwargs =
     remaining opt_name (dict_arg s opt_kwargs) @
     dict_arg (popped_store opt_name s opt_kwargs) metric_kwargs"

text \<open>The keyword argument that unpacking makes of a pair with a string key.\<close>

definition kwarg :: "key \<times> pyval \<Rightarrow> string \<times> arg" where
  "kwarg kv = (py_str (fst kv), Val (snd kv))"

text \<open>The value of \<^verbatim>\<open>d.pop(k, default)\<close>, and of \<^verbatim>\<open>d.get(k, default)\<close>.\<close>

definition lookup_default :: "dict \<Rightarrow> key \<Rightarrow> pyval \<Rightarrow> pyval" where
  "lookup_default d k dflt = (case map_of d k of None \<Rightarrow> dflt | Some v \<Rightarrow> v)"

text \<open>
  The keyword arguments of a call are well formed when the unpacked keys are strings, are
  pairwise different, and differ from the keywords the call spells out: Python then
  performs the call. \<^verbatim>\<open>alpha_init\<close> is bound by the time \<^verbatim>\<open>"pogm"\<close> reads it when the first
  branch of the conditional of lines 63 to 68 was taken.
\<close>

definition keywords_ok :: "key \<Rightarrow> store \<Rightarrow> addr option \<Rightarrow> addr option \<Rightarrow> bool" where
  "keywords_ok opt_name s opt_kwargs metric_kwargs =
     (None \<notin> fst ` set (forwarded opt_name s opt_kwargs metric_kwargs) \<and>
      distinct (map fst (forwarded opt_name s opt_kwargs metric_kwargs)) \<and>
      Some ` set (explicit_keywords opt_name) \<inter>
        fst ` set (forwarded opt_name s opt_kwargs metric_kwargs) = {})"

definition alpha_bound :: "key \<Rightarrow> grad_op \<Rightarrow> bool \<Rightarrow> bool" where
  "alpha_bound opt_name grad_op synthesis_init =
     (opt_name = Some ''pogm'' \<longrightarrow> \<not> synthesis_init \<and> hasattr_linear_op grad_op)"

section \<open>Example inputs\<close>

text \<open>
  Concrete operators, dictionaries and stores at which the properties are evaluated. The
  store \<open>ex_store\<close> holds five dictionaries, at the addresses 1 to 5; every other address
  holds the empty dictionary.
\<close>

definition store_of :: "(addr \<times> dict) list \<Rightarrow> store" where
  "store_of xs a = (case map_of xs a of None \<Rightarrow> [] | Some d \<Rightarrow> d)"

definition flatten :: "ndarray \<Rightarrow> ndarray" where
  "flatten a = a\<lparr>arr_shape := [length (arr_data a)]\<rparr>"

definition ex_fourier :: fourier_op where
  "ex_fourier = \<lparr>n_coils = 1, shape = [2, 2]\<rparr>"

definition ex_linear :: linear_op where
  "ex_linear = \<lparr>op = flatten, adj_op = flatten\<rparr>"

definition ex_analysis :: grad_op where
  "ex_analysis = \<lparr>grad_fourier_op = ex_fourier, grad_linear_op = None, inv_spec_rad = PyFloat (1 / 2)\<rparr>"

definition ex_synthesis :: grad_op where
  "ex_synthesis =
     \<lparr>grad_fourier_op = ex_fourier, grad_linear_op = Some ex_linear, inv_spec_rad = PyFloat (1 / 2)\<rparr>"

definition ex_store :: store where
  "ex_store =
     store_of
       [(1, [(Some ''lambda_param'', PyFloat (1 / 2)), (Some ''sigma_bar'', PyFloat (3 / 4)),
             (Some ''verbose'', PyInt 1)]),
        (2, [(Some ''metric_call_period'', PyInt 5)]),
        (3, [(Some ''x'', PyInt 1)]),
        (4, [(Some ''verbose'', PyInt 2)]),
        (5, [(Some ''sigma_bar'', PyFloat (3 / 4))])]"

text \<open>
  Two example libraries. The first builds gradient operators: its \<^verbatim>\<open>GradSynthesis\<close> raises
  \<^verbatim>\<open>AttributeError\<close> when \<^verbatim>\<open>linear_op\<close> is \<^verbatim>\<open>None\<close>, as the library's constructor does, and
  otherwise each constructor returns an operator with the attributes the module reads.
  The second builds optimizers: its \<^verbatim>\<open>Condat\<close> constructor raises \<^verbatim>\<open>ValueError\<close>, and its
  other constructors return an object, here the number of keyword arguments received.
\<close>

fun ex_grad_library :: "grad_instance \<Rightarrow> error + grad_op" where
  "ex_grad_library (GradAnalysis f v k) =
     Inr \<lparr>grad_fourier_op = f, grad_linear_op = None, inv_spec_rad = PyFloat (1 / 2)\<rparr>"
| "ex_grad_library (GradSynthesis None f v k) = Inl AttributeError"
| "ex_grad_library (GradSynthesis (Some l) f v k) =
     Inr \<lparr>grad_fourier_op = f, grad_linear_op = Some l, inv_spec_rad = PyFloat (1 / 2)\<rparr>"

fun ex_library :: "optimizer \<Rightarrow> error + nat" where
  "ex_library (Instance Condat kws) = Inl (ValueError ''rejected by the library'')"
| "ex_library (Instance c kws) = Inr (length kws)"

definition ex_zeros :: ndarray where
  "ex_zeros = \<lparr>arr_shape = [2, 2], arr_dtype = Complex64, arr_data = [0, 0, 0, 0]\<rparr>"

definition ex_fista_kws :: "(string \<times> arg) list" where
  "ex_fista_kws =
     [(''x'', Arr ex_zeros), (''grad'', Grad ex_analysis), (''prox'', Prox (ProxOp 0)),
      (''linear'', Lin ex_linear), (''beta_param'', Val (PyFloat (1 / 2))),
      (''lambda_param'', Val (PyFloat (1 / 2))), (''auto_iterate'', Val (PyBool False)),
      (''sigma_bar'', Val (PyFloat (3 / 4))), (''verbose'', Val (PyInt 1)),
      (''metric_call_period'', Val (PyInt 5))]"

definition ex_pogm_kws :: "(string \<times> arg) list" where
  "ex_pogm_kws =
     [(''u'', Arr (flatten ex_zeros)), (''x'', Arr (flatten ex_zeros)),
      (''y'', Arr (flatten ex_zeros)), (''z'', Arr (flatten ex_zeros)),
      (''grad'', Grad ex_synthesis), (''prox'', Prox (ProxOp 0)),
      (''linear'', Lin ex_linear), (''beta_param'', Val (PyFloat (1 / 2))),
      (''sigma_bar'', Val (PyFloat (3 / 4))), (''auto_iterate'', Val (PyBool False)),
      (''lambda_param'', Val (PyFloat (1 / 2))), (''verbose'', Val (PyInt 1)),
      (''metric_call_period'', Val (PyInt 5))]"

definition ex_module_store :: store where
  "ex_module_store = ex_store(OPTIMIZERS_addr := OPTIMIZERS)"

section \<open>The function without its unreachable branch\<close>

text \<open>
  \<^verbatim>\<open>initialize_opt\<close> with the second \<^verbatim>\<open>elif\<close> of lines 63 to 68 (the branch
  \<^verbatim>\<open>alpha_init = x_init\<close>) removed, and nothing else changed.
\<close>

definition init_values_without_third_branch ::
  "grad_op \<Rightarrow> linear_op \<Rightarrow> ndarray \<Rightarrow> bool \<Rightarrow> ndarray option \<times> ndarray" where
  "init_values_without_third_branch grad_op linear_op x_init synthesis_init =
     (if \<not> synthesis_init \<and> hasattr_linear_op grad_op then
        (Some (op (the (grad_linear_op grad_op)) x_init), x_init)
      else if synthesis_init \<and> \<not> hasattr_linear_op grad_op then
        (None, adj_op linear_op x_init)
      else (None, x_init))"

definition initialize_opt_without_third_branch ::
  "key \<Rightarrow> grad_op \<Rightarrow> linear_op \<Rightarrow> prox_op \<Rightarrow> ndarray option \<Rightarrow> bool \<Rightarrow>
   addr option \<Rightarrow> addr option \<Rightarrow> store \<Rightarrow> (error + optimizer) \<times> store" where
  "initialize_opt_without_third_branch opt_name grad_op linear_op prox_op x_init synthesis_init
       opt_kwargs metric_kwargs s =
     dispatch opt_name grad_op linear_op prox_op
       (init_values_without_third_branch grad_op linear_op (default_x_init grad_op x_init)
          synthesis_init)
       opt_kwargs metric_kwargs s"

section \<open>Evaluation of the model\<close>

lemma dict_del_absent: "map_of d k = None \<Longrightarrow> dict_del k d = d"
  by (induction d) (auto simp: dict_del_def split: if_splits)

lemma deref_or_dict: "deref s (or_dict s r) = dict_arg s r"
  by (auto simp: deref_def or_dict_def dict_arg_def split: option.splits)

lemma unpack_strings:
  "None \<notin> fst ` set d \<Longrightarrow> unpack d = Inr (map kwarg d)"
  by (induction d rule: unpack.induct) (auto simp: kwarg_def py_str_def)

lemma unpack_None: "None \<in> fst ` set d \<Longrightarrow> unpack d = Inl TypeError"
  by (induction d rule: unpack.induct) (auto split: sum.splits)

lemma unpack_Inl: "unpack d = Inl e \<Longrightarrow> e = TypeError"
  by (induction d rule: unpack.induct) (auto split: sum.splits)

lemma dict_pop_eq:
  "dict_pop r k dflt s =
     ((case map_of (deref s r) k of None \<Rightarrow> dflt | Some v \<Rightarrow> v),
      (case r of Ref a \<Rightarrow> Ref a | Fresh d \<Rightarrow> Fresh (dict_del k d)),
      (case r of Ref a \<Rightarrow> s(a := dict_del k (s a)) | Fresh d \<Rightarrow> s))"
  by (auto simp: dict_pop_def deref_def dict_del_absent split: option.splits dref.splits)

lemma dict_del_Nil [simp]: "dict_del k [] = []"
  by (simp add: dict_del_def)

lemma map_of_dict_del: "k' \<noteq> k \<Longrightarrow> map_of (dict_del k d) k' = map_of d k'"
  by (induction d) (auto simp: dict_del_def)

lemma two_pops:
  assumes "dict_pop (or_dict s ok) k1 d1 s = (v1, r1, s1)"
    and "dict_pop r1 k2 d2 s1 = (v2, r2, s2)"
  shows "v1 = lookup_default (dict_arg s ok) k1 d1"
    and "v2 = lookup_default (dict_del k1 (dict_arg s ok)) k2 d2"
    and "deref s2 r2 = dict_del k2 (dict_del k1 (dict_arg s ok))"
    and "s2 = (case ok of None \<Rightarrow> s | Some a \<Rightarrow> s(a := dict_del k2 (dict_del k1 (s a))))"
    and "deref s2 (or_dict s mk) = dict_arg s2 mk"
  using assms
  by (auto simp: dict_pop_eq lookup_default_def deref_def or_dict_def dict_arg_def
      split: option.splits dref.splits if_splits)

lemma remaining_pogm:
  "remaining (Some ''pogm'') d = dict_del (Some ''auto_iterate'') (dict_del (Some ''sigma_bar'') d)"
  by (auto simp: remaining_def popped_keys_def dict_del_def intro: filter_cong)

lemma remaining_fista:
  "remaining (Some ''fista'') d = dict_del (Some ''auto_iterate'') (dict_del (Some ''lambda_param'') d)"
  by (auto simp: remaining_def popped_keys_def dict_del_def intro: filter_cong)

lemma remaining_other:
  "n \<noteq> Some ''pogm'' \<Longrightarrow> n \<noteq> Some ''fista'' \<Longrightarrow> remaining n d = d"
  by (simp add: remaining_def popped_keys_def)

lemma popped_store_other:
  "n \<noteq> Some ''pogm'' \<Longrightarrow> n \<noteq> Some ''fista'' \<Longrightarrow> popped_store n s ok = s"
  by (auto simp: popped_store_def remaining_other split: option.splits)

lemma dispatch_pogm:
  "dispatch (Some ''pogm'') g l p (Some alpha, x) ok mk s =
     (py_call POGM
        [(''u'', Arr alpha), (''x'', Arr alpha), (''y'', Arr alpha), (''z'', Arr alpha),
         (''grad'', Grad g), (''prox'', Prox p), (''linear'', Lin l),
         (''beta_param'', Val (inv_spec_rad g)),
         (''sigma_bar'', Val (lookup_default (dict_arg s ok) (Some ''sigma_bar'') (PyFloat (96 / 100)))),
         (''auto_iterate'', Val (lookup_default (dict_arg s ok) (Some ''auto_iterate'') (PyBool False)))]
        (remaining (Some ''pogm'') (dict_arg s ok))
        (dict_arg (popped_store (Some ''pogm'') s ok) mk),
      popped_store (Some ''pogm'') s ok)"
proof -
  obtain v1 r1 s1 where p1:
    "dict_pop (or_dict s ok) (Some ''sigma_bar'') (PyFloat (24 / 25)) s = (v1, r1, s1)"
    by (cases "dict_pop (or_dict s ok) (Some ''sigma_bar'') (PyFloat (24 / 25)) s") auto
  obtain v2 r2 s2 where p2:
    "dict_pop r1 (Some ''auto_iterate'') (PyBool False) s1 = (v2, r2, s2)"
    by (cases "dict_pop r1 (Some ''auto_iterate'') (PyBool False) s1") auto
  note t = two_pops [OF p1 p2]
  have s2: "s2 = popped_store (Some ''pogm'') s ok"
    by (simp add: t(4) popped_store_def remaining_pogm split: option.splits)
  have v2: "v2 = lookup_default (dict_arg s ok) (Some ''auto_iterate'') (PyBool False)"
    by (simp add: t(2) lookup_default_def map_of_dict_del)
  have d: "deref s2 r2 = remaining (Some ''pogm'') (dict_arg s ok)"
    by (simp add: t(3) remaining_pogm)
  have m: "deref s2 (or_dict s mk) = dict_arg (popped_store (Some ''pogm'') s ok) mk"
    using t(5) [of mk] by (simp add: s2)
  show ?thesis
    unfolding dispatch_def Let_def
    by (simp add: p1 p2 d m t(1) v2 flip: s2)
qed

lemma dispatch_pogm_unbound:
  "dispatch (Some ''pogm'') g l p (None, x) ok mk s = (Inl (UnboundLocalError ''alpha_init''), s)"
  by (simp add: dispatch_def)

lemma dispatch_fista:
  "dispatch (Some ''fista'') g l p (al, x) ok mk s =
     (py_call ForwardBackward
        [(''x'', Arr x), (''grad'', Grad g), (''prox'', Prox p), (''linear'', Lin l),
         (''beta_param'', Val (inv_spec_rad g)),
         (''lambda_param'', Val (lookup_default (dict_arg s ok) (Some ''lambda_param'') (PyFloat 1))),
         (''auto_iterate'', Val (lookup_default (dict_arg s ok) (Some ''auto_iterate'') (PyBool False)))]
        (remaining (Some ''fista'') (dict_arg s ok))
        (dict_arg (popped_store (Some ''fista'') s ok) mk),
      popped_store (Some ''fista'') s ok)"
proof -
  obtain v1 r1 s1 where p1:
    "dict_pop (or_dict s ok) (Some ''lambda_param'') (PyFloat 1) s = (v1, r1, s1)"
    by (cases "dict_pop (or_dict s ok) (Some ''lambda_param'') (PyFloat 1) s") auto
  obtain v2 r2 s2 where p2:
    "dict_pop r1 (Some ''auto_iterate'') (PyBool False) s1 = (v2, r2, s2)"
    by (cases "dict_pop r1 (Some ''auto_iterate'') (PyBool False) s1") auto
  note t = two_pops [OF p1 p2]
  have s2: "s2 = popped_store (Some ''fista'') s ok"
    by (simp add: t(4) popped_store_def remaining_fista split: option.splits)
  have v2: "v2 = lookup_default (dict_arg s ok) (Some ''auto_iterate'') (PyBool False)"
    by (simp add: t(2) lookup_default_def map_of_dict_del)
  have d: "deref s2 r2 = remaining (Some ''fista'') (dict_arg s ok)"
    by (simp add: t(3) remaining_fista)
  have m: "deref s2 (or_dict s mk) = dict_arg (popped_store (Some ''fista'') s ok) mk"
    using t(5) [of mk] by (simp add: s2)
  show ?thesis
    unfolding dispatch_def Let_def
    by (simp add: p1 p2 d m t(1) v2 flip: s2)
qed

lemma dispatch_condat:
  "dispatch (Some ''condat-vu'') g l p (al, x) ok mk s =
     (py_call Condat
        [(''x'', Arr x), (''y'', Arr (op l x)), (''grad'', Grad g), (''prox'', Identity),
         (''prox_dual'', Prox p), (''linear'', Lin l)]
        (remaining (Some ''condat-vu'') (dict_arg s ok))
        (dict_arg (popped_store (Some ''condat-vu'') s ok) mk),
      popped_store (Some ''condat-vu'') s ok)"
  by (simp add: dispatch_def Let_def deref_or_dict remaining_other popped_store_other)

lemma dispatch_invalid:
  "n \<notin> valid_names \<Longrightarrow>
   dispatch n g l p v ok mk s =
     (Inl (ValueError (''Optimizer '' @ py_str n @ '' not implemented'')), s)"
  by (simp add: dispatch_def Let_def valid_names_def)

lemma map_fst_kwarg:
  "None \<notin> fst ` set d \<Longrightarrow> map Some (map fst (map kwarg d)) = map fst d"
  by (induction d) (auto simp: kwarg_def py_str_def split: option.splits)

lemma distinct_kwarg:
  assumes "None \<notin> fst ` set d" and "distinct (map fst d)"
  shows "distinct (map fst (map kwarg d))"
proof -
  have e: "map Some (map fst (map kwarg d)) = map fst d"
    using assms(1) by (rule map_fst_kwarg)
  have "distinct (map Some (map fst (map kwarg d)))"
    using assms(2) by (simp only: e)
  then show ?thesis
    using distinct_map [of Some "map fst (map kwarg d)"] by blast
qed

lemma set_fst_kwarg:
  assumes "None \<notin> fst ` set d"
  shows "Some ` set (map fst (map kwarg d)) = fst ` set d"
proof -
  have e: "map Some (map fst (map kwarg d)) = map fst d"
    using assms by (rule map_fst_kwarg)
  have "set (map Some (map fst (map kwarg d))) = set (map fst d)"
    by (simp only: e)
  then show ?thesis by (simp only: set_map)
qed

lemma py_call_ok:
  assumes "None \<notin> fst ` set (d1 @ d2)"
    and "distinct (map fst (d1 @ d2))"
    and "Some ` set (map fst ex) \<inter> fst ` set (d1 @ d2) = {}"
    and "distinct (map fst ex)"
  shows "py_call c ex d1 d2 = Inr (Instance c (ex @ map kwarg (d1 @ d2)))"
proof -
  have u: "unpack (d1 @ d2) = Inr (map kwarg (d1 @ d2))"
    using assms(1) by (rule unpack_strings)
  have d: "distinct (map fst (map kwarg (d1 @ d2)))"
    using assms(1,2) by (rule distinct_kwarg)
  have "Some ` (set (map fst ex) \<inter> set (map fst (map kwarg (d1 @ d2)))) = {}"
    using assms(3) set_fst_kwarg [OF assms(1)] by (auto simp: image_Int)
  then have i: "set (map fst ex) \<inter> set (map fst (map kwarg (d1 @ d2))) = {}"
    by simp
  have "distinct (map fst (ex @ map kwarg (d1 @ d2)))"
    using assms(4) d i by (simp only: map_append distinct_append)
  then show ?thesis
    using u by (simp add: py_call_def)
qed

lemma py_call_Inr:
  assumes "py_call c ex d1 d2 = Inr opt"
  shows "\<exists>kws. opt = Instance c (ex @ kws) \<and> distinct (map fst (ex @ kws))"
  using assms by (auto simp: py_call_def split: sum.splits if_splits)

lemma py_call_Inl:
  assumes "py_call c ex d1 d2 = Inl e"
  shows "e = TypeError"
  using assms by (auto simp: py_call_def split: sum.splits if_splits dest: unpack_Inl)

lemma init_values_bound:
  "\<not> synthesis_init \<Longrightarrow> hasattr_linear_op g \<Longrightarrow>
   init_values g l x synthesis_init = (Some (op (the (grad_linear_op g)) x), x)"
  by (simp add: init_values_def)

lemma forwarded_split:
  "forwarded n s ok mk = remaining n (dict_arg s ok) @ dict_arg (popped_store n s ok) mk"
  by (simp add: forwarded_def)

lemma initialize_opt_pogm_ok:
  assumes "\<not> syn" and "hasattr_linear_op g" and "keywords_ok (Some ''pogm'') s ok mk"
  shows "initialize_opt (Some ''pogm'') g l p x syn ok mk s =
     (Inr (Instance POGM
        ([(''u'', Arr (op (the (grad_linear_op g)) (default_x_init g x))),
          (''x'', Arr (op (the (grad_linear_op g)) (default_x_init g x))),
          (''y'', Arr (op (the (grad_linear_op g)) (default_x_init g x))),
          (''z'', Arr (op (the (grad_linear_op g)) (default_x_init g x))),
          (''grad'', Grad g), (''prox'', Prox p), (''linear'', Lin l),
          (''beta_param'', Val (inv_spec_rad g)),
          (''sigma_bar'',
             Val (lookup_default (dict_arg s ok) (Some ''sigma_bar'') (PyFloat (96 / 100)))),
          (''auto_iterate'',
             Val (lookup_default (dict_arg s ok) (Some ''auto_iterate'') (PyBool False)))]
         @ map kwarg (forwarded (Some ''pogm'') s ok mk))),
      popped_store (Some ''pogm'') s ok)"
proof -
  note k = assms(3) [unfolded keywords_ok_def forwarded_split]
  show ?thesis
    unfolding initialize_opt_def init_values_bound [OF assms(1,2)] dispatch_pogm forwarded_split
    by (subst py_call_ok) (use k in \<open>simp_all add: explicit_keywords_def\<close>)
qed

lemma initialize_opt_fista_ok:
  assumes "keywords_ok (Some ''fista'') s ok mk"
  shows "initialize_opt (Some ''fista'') g l p x syn ok mk s =
     (Inr (Instance ForwardBackward
        ([(''x'', Arr (snd (init_values g l (default_x_init g x) syn))),
          (''grad'', Grad g), (''prox'', Prox p), (''linear'', Lin l),
          (''beta_param'', Val (inv_spec_rad g)),
          (''lambda_param'',
             Val (lookup_default (dict_arg s ok) (Some ''lambda_param'') (PyFloat 1))),
          (''auto_iterate'',
             Val (lookup_default (dict_arg s ok) (Some ''auto_iterate'') (PyBool False)))]
         @ map kwarg (forwarded (Some ''fista'') s ok mk))),
      popped_store (Some ''fista'') s ok)"
proof -
  note k = assms [unfolded keywords_ok_def forwarded_split]
  obtain al xi where iv: "init_values g l (default_x_init g x) syn = (al, xi)"
    by (cases "init_values g l (default_x_init g x) syn") auto
  show ?thesis
    unfolding initialize_opt_def iv dispatch_fista forwarded_split
    by (subst py_call_ok) (use k in \<open>simp_all add: explicit_keywords_def\<close>)
qed

lemma initialize_opt_condat_ok:
  assumes "keywords_ok (Some ''condat-vu'') s ok mk"
  shows "initialize_opt (Some ''condat-vu'') g l p x syn ok mk s =
     (Inr (Instance Condat
        ([(''x'', Arr (snd (init_values g l (default_x_init g x) syn))),
          (''y'', Arr (op l (snd (init_values g l (default_x_init g x) syn)))),
          (''grad'', Grad g), (''prox'', Identity), (''prox_dual'', Prox p),
          (''linear'', Lin l)]
         @ map kwarg (forwarded (Some ''condat-vu'') s ok mk))),
      popped_store (Some ''condat-vu'') s ok)"
proof -
  note k = assms [unfolded keywords_ok_def forwarded_split]
  obtain al xi where iv: "init_values g l (default_x_init g x) syn = (al, xi)"
    by (cases "init_values g l (default_x_init g x) syn") auto
  show ?thesis
    unfolding initialize_opt_def iv dispatch_condat forwarded_split
    by (subst py_call_ok) (use k in \<open>simp_all add: explicit_keywords_def\<close>)
qed

lemma initialize_opt_invalid:
  "n \<notin> valid_names \<Longrightarrow>
   initialize_opt n g l p x syn ok mk s =
     (Inl (ValueError (''Optimizer '' @ py_str n @ '' not implemented'')), s)"
  by (simp add: initialize_opt_def dispatch_invalid)

lemma initialize_opt_valid_error:
  assumes "n \<in> valid_names" and "fst (initialize_opt n g l p x syn ok mk s) = Inl e"
  shows "e = TypeError \<or> e = UnboundLocalError ''alpha_init''"
proof -
  obtain al xi where iv: "init_values g l (default_x_init g x) syn = (al, xi)"
    by (cases "init_values g l (default_x_init g x) syn") auto
  consider "n = Some ''pogm''" | "n = Some ''fista''" | "n = Some ''condat-vu''"
    using assms(1) by (auto simp: valid_names_def)
  then show ?thesis
  proof cases
    case 1
    then show ?thesis
      using assms(2)
      by (cases al) (auto simp: initialize_opt_def iv dispatch_pogm dispatch_pogm_unbound
          dest: py_call_Inl)
  next
    case 2
    then show ?thesis
      using assms(2) by (auto simp: initialize_opt_def iv dispatch_fista dest: py_call_Inl)
  next
    case 3
    then show ?thesis
      using assms(2) by (auto simp: initialize_opt_def iv dispatch_condat dest: py_call_Inl)
  qed
qed

lemma initialize_opt_store:
  "snd (initialize_opt n g l p x syn ok mk s) =
     (if n = Some ''pogm'' \<and> fst (init_values g l (default_x_init g x) syn) = None then s
      else popped_store n s ok)"
proof -
  obtain al xi where iv: "init_values g l (default_x_init g x) syn = (al, xi)"
    by (cases "init_values g l (default_x_init g x) syn") auto
  consider "n = Some ''pogm''" | "n = Some ''fista''" | "n = Some ''condat-vu''"
    | "n \<notin> valid_names"
    by (auto simp: valid_names_def)
  then show ?thesis
  proof cases
    case 1
    then show ?thesis
      by (cases al) (simp_all add: initialize_opt_def iv dispatch_pogm dispatch_pogm_unbound)
  next
    case 2
    then show ?thesis by (simp add: initialize_opt_def iv dispatch_fista)
  next
    case 3
    then show ?thesis by (simp add: initialize_opt_def iv dispatch_condat)
  next
    case 4
    then have "n \<noteq> Some ''pogm''" "n \<noteq> Some ''fista''"
      by (auto simp: valid_names_def)
    with 4 show ?thesis
      by (simp add: initialize_opt_def dispatch_invalid popped_store_other)
  qed
qed

lemmas ex_defs = store_of_def flatten_def ex_fourier_def ex_linear_def ex_analysis_def
  ex_synthesis_def ex_store_def
lemmas vocab_defs = valid_names_def popped_keys_def explicit_keywords_def dict_arg_def
  remaining_def popped_store_def forwarded_def keywords_ok_def alpha_bound_def
  hasattr_linear_op_def lookup_default_def
lemmas model_defs = initialize_opt_def dispatch_def init_values_def default_x_init_def
  np_zeros_def np_squeeze_def py_call_def dict_pop_def or_dict_def deref_def dict_del_def
  py_str_def

section \<open>Failures (claim C1)\<close>

lemma initialize_opt_outcome_call:
  "fst (initialize_opt n g l p x syn ok mk s) = Inr call \<Longrightarrow>
   fst (initialize_opt_outcome lib n g l p x syn ok mk s) = lib call"
  by (cases "initialize_opt n g l p x syn ok mk s") (simp add: initialize_opt_outcome_def)

lemma initialize_opt_outcome_error:
  "fst (initialize_opt n g l p x syn ok mk s) = Inl e \<Longrightarrow>
   fst (initialize_opt_outcome lib n g l p x syn ok mk s) = Inl e"
  by (cases "initialize_opt n g l p x syn ok mk s") (simp add: initialize_opt_outcome_def)

lemma initialize_opt_outcome_store:
  "snd (initialize_opt_outcome lib n g l p x syn ok mk s) =
   snd (initialize_opt n g l p x syn ok mk s)"
  by (cases "initialize_opt n g l p x syn ok mk s")
    (simp add: initialize_opt_outcome_def split: sum.splits)

lemma initialize_opt_outcome_Inl:
  assumes "fst (initialize_opt_outcome lib n g l p x syn ok mk s) = Inl e"
  shows "fst (initialize_opt n g l p x syn ok mk s) = Inl e \<or>
         (\<exists>call. fst (initialize_opt n g l p x syn ok mk s) = Inr call \<and> lib call = Inl e)"
  using assms
  by (cases "initialize_opt n g l p x syn ok mk s")
    (auto simp: initialize_opt_outcome_def split: sum.splits)

lemma initialize_opt_outcome_Inr:
  assumes "fst (initialize_opt_outcome lib n g l p x syn ok mk s) = Inr obj"
  shows "\<exists>call. fst (initialize_opt n g l p x syn ok mk s) = Inr call \<and> lib call = Inr obj"
  using assms
  by (cases "initialize_opt n g l p x syn ok mk s")
    (auto simp: initialize_opt_outcome_def split: sum.splits)

lemma initialize_opt_call_made:
  assumes "n \<in> valid_names" and "alpha_bound n g syn" and "keywords_ok n s ok mk"
  shows "\<exists>kws. fst (initialize_opt n g l p x syn ok mk s) =
           Inr (Instance (if n = Some ''pogm'' then POGM
                          else if n = Some ''fista'' then ForwardBackward else Condat) kws)"
proof -
  consider "n = Some ''pogm''" | "n = Some ''fista''" | "n = Some ''condat-vu''"
    using assms(1) by (auto simp: valid_names_def)
  then show ?thesis
  proof cases
    case 1
    with assms show ?thesis
      by (simp add: alpha_bound_def initialize_opt_pogm_ok)
  next
    case 2
    with assms show ?thesis by (simp add: initialize_opt_fista_ok)
  next
    case 3
    with assms show ?thesis by (simp add: initialize_opt_condat_ok)
  qed
qed

text \<open>
  Claim C1, as amended. A name other than \<^verbatim>\<open>"pogm"\<close>, \<^verbatim>\<open>"fista"\<close> and \<^verbatim>\<open>"condat-vu"\<close>
  makes \<^verbatim>\<open>initialize_opt\<close> raise \<^verbatim>\<open>ValueError("Optimizer {opt_name} not implemented")\<close>,
  whatever the library, and leaves every dictionary as it was. That is not the only
  failure. With one of the three names the module's own code raises nothing but
  \<^verbatim>\<open>UnboundLocalError\<close> (when \<^verbatim>\<open>"pogm"\<close> reads \<^verbatim>\<open>alpha_init\<close> unbound) and \<^verbatim>\<open>TypeError\<close> (when a
  keyword is given twice or is not a string). Otherwise it calls the constructor of the
  name, and the outcome of \<^verbatim>\<open>initialize_opt\<close> is the outcome of that call: the object the
  constructor returns, or the exception it raises. The call is made when the keyword
  arguments are well formed and, for \<^verbatim>\<open>"pogm"\<close>, when \<^verbatim>\<open>synthesis_init\<close> is false and
  \<^verbatim>\<open>grad_op\<close> has a \<^verbatim>\<open>linear_op\<close> attribute.
\<close>

theorem initialize_opt_errors:
  "(opt_name \<notin> valid_names \<longrightarrow>
      initialize_opt_outcome lib opt_name grad_op linear_op prox_op x_init synthesis_init
          opt_kwargs metric_kwargs s =
        (Inl (ValueError (''Optimizer '' @ py_str opt_name @ '' not implemented'')), s)) \<and>
   (opt_name \<in> valid_names \<longrightarrow>
      (\<forall>e. fst (initialize_opt_outcome lib opt_name grad_op linear_op prox_op x_init
                  synthesis_init opt_kwargs metric_kwargs s) = Inl e \<longrightarrow>
         e = UnboundLocalError ''alpha_init'' \<or> e = TypeError \<or>
         (\<exists>call. fst (initialize_opt opt_name grad_op linear_op prox_op x_init synthesis_init
                         opt_kwargs metric_kwargs s) = Inr call \<and>
                 lib call = Inl e))) \<and>
   (opt_name \<in> valid_names \<and> alpha_bound opt_name grad_op synthesis_init \<and>
    keywords_ok opt_name s opt_kwargs metric_kwargs \<longrightarrow>
      (\<exists>kws.
         fst (initialize_opt opt_name grad_op linear_op prox_op x_init synthesis_init
                opt_kwargs metric_kwargs s) =
           Inr (Instance (if opt_name = Some ''pogm'' then POGM
                          else if opt_name = Some ''fista'' then ForwardBackward
                          else Condat) kws) \<and>
         fst (initialize_opt_outcome lib opt_name grad_op linear_op prox_op x_init
                synthesis_init opt_kwargs metric_kwargs s) =
           lib (Instance (if opt_name = Some ''pogm'' then POGM
                          else if opt_name = Some ''fista'' then ForwardBackward
                          else Condat) kws)))"
proof (intro conjI impI allI)
  assume "opt_name \<notin> valid_names"
  then show "initialize_opt_outcome lib opt_name grad_op linear_op prox_op x_init synthesis_init
          opt_kwargs metric_kwargs s =
        (Inl (ValueError (''Optimizer '' @ py_str opt_name @ '' not implemented'')), s)"
    by (simp add: initialize_opt_outcome_def initialize_opt_invalid)
next
  fix e
  assume v: "opt_name \<in> valid_names"
    and "fst (initialize_opt_outcome lib opt_name grad_op linear_op prox_op x_init
                  synthesis_init opt_kwargs metric_kwargs s) = Inl e"
  from initialize_opt_outcome_Inl [OF this(2)] initialize_opt_valid_error [OF v]
  show "e = UnboundLocalError ''alpha_init'' \<or> e = TypeError \<or>
         (\<exists>call. fst (initialize_opt opt_name grad_op linear_op prox_op x_init synthesis_init
                         opt_kwargs metric_kwargs s) = Inr call \<and>
                 lib call = Inl e)"
    by blast
next
  assume "opt_name \<in> valid_names \<and> alpha_bound opt_name grad_op synthesis_init \<and>
    keywords_ok opt_name s opt_kwargs metric_kwargs"
  then obtain kws where
    "fst (initialize_opt opt_name grad_op linear_op prox_op x_init synthesis_init
                opt_kwargs metric_kwargs s) =
           Inr (Instance (if opt_name = Some ''pogm'' then POGM
                          else if opt_name = Some ''fista'' then ForwardBackward
                          else Condat) kws)"
    using initialize_opt_call_made by blast
  then show "\<exists>kws.
         fst (initialize_opt opt_name grad_op linear_op prox_op x_init synthesis_init
                opt_kwargs metric_kwargs s) =
           Inr (Instance (if opt_name = Some ''pogm'' then POGM
                          else if opt_name = Some ''fista'' then ForwardBackward
                          else Condat) kws) \<and>
         fst (initialize_opt_outcome lib opt_name grad_op linear_op prox_op x_init
                synthesis_init opt_kwargs metric_kwargs s) =
           lib (Instance (if opt_name = Some ''pogm'' then POGM
                          else if opt_name = Some ''fista'' then ForwardBackward
                          else Condat) kws)"
    using initialize_opt_outcome_call by blast
qed

text \<open>
  The amended claim C1 with the example library: at an unknown name; at \<^verbatim>\<open>"pogm"\<close>, where
  the constructor is called and returns; and at \<^verbatim>\<open>"condat-vu"\<close>, where the constructor is
  called and it is the library that raises.
\<close>

theorem initialize_opt_errors_witness:
  "Some ''adam'' \<notin> valid_names \<and>
   initialize_opt_outcome ex_library (Some ''adam'') ex_analysis ex_linear (ProxOp 0) None
       False (Some 1) (Some 2) ex_store =
     (Inl (ValueError ''Optimizer adam not implemented''), ex_store) \<and>
   Some ''pogm'' \<in> valid_names \<and>
   alpha_bound (Some ''pogm'') ex_synthesis False \<and>
   keywords_ok (Some ''pogm'') ex_store (Some 1) (Some 2) \<and>
   fst (initialize_opt_outcome ex_library (Some ''pogm'') ex_synthesis ex_linear (ProxOp 0)
          None False (Some 1) (Some 2) ex_store) = Inr 13 \<and>
   Some ''condat-vu'' \<in> valid_names \<and>
   alpha_bound (Some ''condat-vu'') ex_analysis False \<and>
   keywords_ok (Some ''condat-vu'') ex_store (Some 1) (Some 2) \<and>
   fst (initialize_opt_outcome ex_library (Some ''condat-vu'') ex_analysis ex_linear (ProxOp 0)
          None False (Some 1) (Some 2) ex_store) = Inl (ValueError ''rejected by the library'')"
proof -
  have a: "Some ''adam'' \<notin> valid_names"
    by (simp add: valid_names_def)
  have b: "Some ''pogm'' \<in> valid_names \<and> alpha_bound (Some ''pogm'') ex_synthesis False \<and>
      keywords_ok (Some ''pogm'') ex_store (Some 1) (Some 2)"
    by (simp add: vocab_defs ex_defs)
  have c: "Some ''condat-vu'' \<in> valid_names \<and> alpha_bound (Some ''condat-vu'') ex_analysis False \<and>
      keywords_ok (Some ''condat-vu'') ex_store (Some 1) (Some 2)"
    by (simp add: vocab_defs ex_defs)
  note t1 = initialize_opt_errors [of "Some ''adam''" ex_library ex_analysis ex_linear "ProxOp 0"
      None False "Some 1" "Some 2" ex_store, THEN conjunct1, THEN mp, OF a]
  note t2 = initialize_opt_errors [of "Some ''pogm''" ex_library ex_synthesis ex_linear
      "ProxOp 0" None False "Some 1" "Some 2" ex_store, THEN conjunct2, THEN conjunct2, THEN mp,
      OF b]
  note t3 = initialize_opt_errors [of "Some ''condat-vu''" ex_library ex_analysis ex_linear
      "ProxOp 0" None False "Some 1" "Some 2" ex_store, THEN conjunct2, THEN conjunct2, THEN mp,
      OF c]
  have p: "fst (initialize_opt (Some ''pogm'') ex_synthesis ex_linear (ProxOp 0) None False
      (Some 1) (Some 2) ex_store) = Inr (Instance POGM kws) \<Longrightarrow> length kws = 13" for kws
    by (simp add: model_defs vocab_defs ex_defs Let_def eval_nat_numeral) auto
  from t2 p have 2: "fst (initialize_opt_outcome ex_library (Some ''pogm'') ex_synthesis
      ex_linear (ProxOp 0) None False (Some 1) (Some 2) ex_store) = Inr 13"
    by auto
  from t3 have 3: "fst (initialize_opt_outcome ex_library (Some ''condat-vu'') ex_analysis
      ex_linear (ProxOp 0) None False (Some 1) (Some 2) ex_store) =
      Inl (ValueError ''rejected by the library'')"
    by auto
  from a b c t1 2 3 show ?thesis
    by (simp add: py_str_def)
qed

text \<open>
  Claim C1 as stated fails: \<^verbatim>\<open>"pogm"\<close> with a gradient operator that has no \<^verbatim>\<open>linear_op\<close>
  attribute never binds \<^verbatim>\<open>alpha_init\<close>, and the call raises \<^verbatim>\<open>UnboundLocalError\<close>.
\<close>

theorem valid_name_failure_counterexample:
  "initialize_opt (Some ''pogm'') ex_analysis ex_linear (ProxOp 0) None False None None
       ex_store =
     (Inl (UnboundLocalError ''alpha_init''), ex_store)"
  by (simp add: initialize_opt_def init_values_def hasattr_linear_op_def ex_analysis_def
      dispatch_pogm_unbound)

section \<open>The selected class (claim C2)\<close>

lemma initialize_opt_Inr_class:
  assumes "fst (initialize_opt n g l p x syn ok mk s) = Inr (Instance c kws)"
  shows "(n = Some ''pogm'' \<and> c = POGM) \<or> (n = Some ''fista'' \<and> c = ForwardBackward) \<or>
         (n = Some ''condat-vu'' \<and> c = Condat)"
proof -
  obtain al xi where iv: "init_values g l (default_x_init g x) syn = (al, xi)"
    by (cases "init_values g l (default_x_init g x) syn") auto
  consider "n = Some ''pogm''" | "n = Some ''fista''" | "n = Some ''condat-vu''"
    | "n \<notin> valid_names"
    by (auto simp: valid_names_def)
  then show ?thesis
  proof cases
    case 1
    then show ?thesis
      using assms
      by (cases al) (auto simp: initialize_opt_def iv dispatch_pogm dispatch_pogm_unbound
          dest: py_call_Inr)
  next
    case 2
    then show ?thesis
      using assms by (auto simp: initialize_opt_def iv dispatch_fista dest: py_call_Inr)
  next
    case 3
    then show ?thesis
      using assms by (auto simp: initialize_opt_def iv dispatch_condat dest: py_call_Inr)
  next
    case 4
    then show ?thesis
      using assms by (simp add: initialize_opt_invalid)
  qed
qed

lemma initialize_opt_ok_class:
  assumes "n \<in> valid_names" and "alpha_bound n g syn" and "keywords_ok n s ok mk"
  shows "\<exists>kws. fst (initialize_opt n g l p x syn ok mk s) =
           Inr (Instance (if n = Some ''pogm'' then POGM
                          else if n = Some ''fista'' then ForwardBackward else Condat) kws)"
proof -
  consider "n = Some ''pogm''" | "n = Some ''fista''" | "n = Some ''condat-vu''"
    using assms(1) by (auto simp: valid_names_def)
  then show ?thesis
  proof cases
    case 1
    with assms show ?thesis
      by (simp add: alpha_bound_def initialize_opt_pogm_ok)
  next
    case 2
    with assms show ?thesis by (simp add: initialize_opt_fista_ok)
  next
    case 3
    with assms show ?thesis by (simp add: initialize_opt_condat_ok)
  qed
qed

lemma initialize_opt_outcome_class:
  assumes "fst (initialize_opt_outcome lib n g l p x syn ok mk s) = Inr obj"
  shows "n \<in> valid_names \<and>
      (\<exists>kws. fst (initialize_opt n g l p x syn ok mk s) =
                Inr (Instance (if n = Some ''pogm'' then POGM
                               else if n = Some ''fista'' then ForwardBackward
                               else Condat) kws) \<and>
              lib (Instance (if n = Some ''pogm'' then POGM
                             else if n = Some ''fista'' then ForwardBackward
                             else Condat) kws) = Inr obj)"
proof -
  from initialize_opt_outcome_Inr [OF assms]
  obtain call where c: "fst (initialize_opt n g l p x syn ok mk s) = Inr call"
    and l: "lib call = Inr obj"
    by blast
  obtain c' kws where k: "call = Instance c' kws"
    by (cases call) auto
  from initialize_opt_Inr_class [OF c [unfolded k]] c l
  show ?thesis
    unfolding k by (auto simp: valid_names_def)
qed

text \<open>
  Claim C2, as amended. \<^verbatim>\<open>initialize_opt\<close> selects the constructor by the name alone: the
  only constructor a call enters is \<^verbatim>\<open>POGM\<close> for \<^verbatim>\<open>"pogm"\<close>, \<^verbatim>\<open>ForwardBackward\<close> for
  \<^verbatim>\<open>"fista"\<close> and \<^verbatim>\<open>Condat\<close> for \<^verbatim>\<open>"condat-vu"\<close>, and no other name enters one. For each of
  the three names the call is made when the keyword arguments are well formed and, for
  \<^verbatim>\<open>"pogm"\<close>, when \<^verbatim>\<open>synthesis_init\<close> is false and \<^verbatim>\<open>grad_op\<close> has a \<^verbatim>\<open>linear_op\<close> attribute.
  Whatever \<^verbatim>\<open>initialize_opt\<close> returns is the object that constructor returned for that call;
  the constructor may also raise, and then nothing is returned.
\<close>

theorem initialize_opt_class:
  "(opt_name \<in> valid_names \<and> alpha_bound opt_name grad_op synthesis_init \<and>
    keywords_ok opt_name s opt_kwargs metric_kwargs \<longrightarrow>
      (\<exists>kws. fst (initialize_opt opt_name grad_op linear_op prox_op x_init synthesis_init
                    opt_kwargs metric_kwargs s) =
         Inr (Instance (if opt_name = Some ''pogm'' then POGM
                        else if opt_name = Some ''fista'' then ForwardBackward
                        else Condat) kws))) \<and>
   (\<forall>c kws. fst (initialize_opt opt_name grad_op linear_op prox_op x_init synthesis_init
                    opt_kwargs metric_kwargs s) = Inr (Instance c kws) \<longrightarrow>
      (opt_name = Some ''pogm'' \<and> c = POGM) \<or>
      (opt_name = Some ''fista'' \<and> c = ForwardBackward) \<or>
      (opt_name = Some ''condat-vu'' \<and> c = Condat)) \<and>
   (\<forall>obj. fst (initialize_opt_outcome lib opt_name grad_op linear_op prox_op x_init
                   synthesis_init opt_kwargs metric_kwargs s) = Inr obj \<longrightarrow>
      opt_name \<in> valid_names \<and>
      (\<exists>kws. fst (initialize_opt opt_name grad_op linear_op prox_op x_init synthesis_init
                    opt_kwargs metric_kwargs s) =
                Inr (Instance (if opt_name = Some ''pogm'' then POGM
                               else if opt_name = Some ''fista'' then ForwardBackward
                               else Condat) kws) \<and>
              lib (Instance (if opt_name = Some ''pogm'' then POGM
                             else if opt_name = Some ''fista'' then ForwardBackward
                             else Condat) kws) = Inr obj))"
  using initialize_opt_ok_class [of opt_name grad_op synthesis_init s opt_kwargs metric_kwargs]
    initialize_opt_Inr_class [of opt_name grad_op linear_op prox_op x_init synthesis_init
      opt_kwargs metric_kwargs s]
    initialize_opt_outcome_class [of lib opt_name grad_op linear_op prox_op x_init
      synthesis_init opt_kwargs metric_kwargs s]
  by blast

text \<open>
  The amended claim C2 with the example library: at \<^verbatim>\<open>"condat-vu"\<close> the \<^verbatim>\<open>Condat\<close>
  constructor is entered (and raises), at \<^verbatim>\<open>"pogm"\<close> the \<^verbatim>\<open>POGM\<close> constructor is entered and
  what it returns is returned.
\<close>

theorem initialize_opt_class_witness:
  "Some ''condat-vu'' \<in> valid_names \<and>
   alpha_bound (Some ''condat-vu'') ex_analysis True \<and>
   keywords_ok (Some ''condat-vu'') ex_store (Some 1) (Some 2) \<and>
   (\<exists>kws. fst (initialize_opt (Some ''condat-vu'') ex_analysis ex_linear (ProxOp 0) None True
                 (Some 1) (Some 2) ex_store) = Inr (Instance Condat kws)) \<and>
   Some ''pogm'' \<in> valid_names \<and>
   alpha_bound (Some ''pogm'') ex_synthesis False \<and>
   keywords_ok (Some ''pogm'') ex_store (Some 1) (Some 2) \<and>
   (\<exists>kws. fst (initialize_opt (Some ''pogm'') ex_synthesis ex_linear (ProxOp 0) None False
                 (Some 1) (Some 2) ex_store) = Inr (Instance POGM kws)) \<and>
   fst (initialize_opt_outcome ex_library (Some ''pogm'') ex_synthesis ex_linear (ProxOp 0)
          None False (Some 1) (Some 2) ex_store) = Inr 13 \<and>
   (\<exists>kws. fst (initialize_opt (Some ''pogm'') ex_synthesis ex_linear (ProxOp 0) None False
                 (Some 1) (Some 2) ex_store) = Inr (Instance POGM kws) \<and>
           ex_library (Instance POGM kws) = Inr 13)"
proof -
  have c: "Some ''condat-vu'' \<in> valid_names \<and> alpha_bound (Some ''condat-vu'') ex_analysis True \<and>
      keywords_ok (Some ''condat-vu'') ex_store (Some 1) (Some 2)"
    by (simp add: vocab_defs ex_defs)
  have b: "Some ''pogm'' \<in> valid_names \<and> alpha_bound (Some ''pogm'') ex_synthesis False \<and>
      keywords_ok (Some ''pogm'') ex_store (Some 1) (Some 2)"
    by (simp add: vocab_defs ex_defs)
  have r: "fst (initialize_opt_outcome ex_library (Some ''pogm'') ex_synthesis ex_linear
      (ProxOp 0) None False (Some 1) (Some 2) ex_store) = Inr 13"
    by (simp add: initialize_opt_outcome_def model_defs vocab_defs ex_defs Let_def
        eval_nat_numeral)
  note t1 = initialize_opt_class [of "Some ''condat-vu''" ex_analysis True ex_store
      "Some 1" "Some 2" ex_linear "ProxOp 0" None ex_library, THEN conjunct1, THEN mp, OF c]
  note t2 = initialize_opt_class [of "Some ''pogm''" ex_synthesis False ex_store
      "Some 1" "Some 2" ex_linear "ProxOp 0" None ex_library]
  note t3 = t2 [THEN conjunct1, THEN mp, OF b]
  note t4 = t2 [THEN conjunct2, THEN conjunct2, THEN spec, THEN mp, OF r, THEN conjunct2]
  from t1 have 1: "\<exists>kws. fst (initialize_opt (Some ''condat-vu'') ex_analysis ex_linear
      (ProxOp 0) None True (Some 1) (Some 2) ex_store) = Inr (Instance Condat kws)"
    by simp
  from t3 have 3: "\<exists>kws. fst (initialize_opt (Some ''pogm'') ex_synthesis ex_linear
      (ProxOp 0) None False (Some 1) (Some 2) ex_store) = Inr (Instance POGM kws)"
    by simp
  from t4 have 4: "\<exists>kws. fst (initialize_opt (Some ''pogm'') ex_synthesis ex_linear (ProxOp 0)
      None False (Some 1) (Some 2) ex_store) = Inr (Instance POGM kws) \<and>
      ex_library (Instance POGM kws) = Inr 13"
    by simp
  from c b r 1 3 4 show ?thesis
    by blast
qed

text \<open>
  Claim C2 as stated fails: with \<^verbatim>\<open>"condat-vu"\<close>, \<^verbatim>\<open>opt_kwargs = {..., "verbose": 1}\<close> and
  \<^verbatim>\<open>metric_kwargs = {"verbose": 2}\<close> the keyword \<^verbatim>\<open>verbose\<close> is given twice, Python raises
  \<^verbatim>\<open>TypeError\<close> and no instance of \<^verbatim>\<open>Condat\<close> is returned.
\<close>

theorem no_instance_counterexample:
  "fst (initialize_opt (Some ''condat-vu'') ex_analysis ex_linear (ProxOp 0) None False
          (Some 1) (Some 4) ex_store) = Inl TypeError"
  by (simp add: model_defs vocab_defs ex_defs Let_def)

section \<open>The step size (claim C4)\<close>

lemma ex_fista_run:
  "fst (initialize_opt (Some ''fista'') ex_analysis ex_linear (ProxOp 0) None False
          (Some 1) (Some 2) ex_store) = Inr (Instance ForwardBackward ex_fista_kws)"
  by (simp add: model_defs vocab_defs ex_defs Let_def ex_fista_kws_def ex_zeros_def eval_nat_numeral)

lemma ex_pogm_run:
  "fst (initialize_opt (Some ''pogm'') ex_synthesis ex_linear (ProxOp 0) None False
          (Some 1) (Some 2) ex_store) = Inr (Instance POGM ex_pogm_kws)"
  by (simp add: model_defs vocab_defs ex_defs Let_def ex_pogm_kws_def ex_zeros_def eval_nat_numeral)

lemma initialize_opt_beta:
  assumes "n = Some ''pogm'' \<or> n = Some ''fista''"
    and "fst (initialize_opt n g l p x syn ok mk s) = Inr (Instance c kws)"
  shows "map_of kws ''beta_param'' = Some (Val (inv_spec_rad g))"
proof -
  obtain al xi where iv: "init_values g l (default_x_init g x) syn = (al, xi)"
    by (cases "init_values g l (default_x_init g x) syn") auto
  from assms(1) show ?thesis
  proof
    assume n: "n = Some ''pogm''"
    show ?thesis
    proof (cases al)
      case None
      with assms(2) n show ?thesis
        by (simp add: initialize_opt_def iv dispatch_pogm_unbound)
    next
      case (Some alpha)
      with assms(2) n obtain kws' where "kws =
        [(''u'', Arr alpha), (''x'', Arr alpha), (''y'', Arr alpha), (''z'', Arr alpha),
         (''grad'', Grad g), (''prox'', Prox p), (''linear'', Lin l),
         (''beta_param'', Val (inv_spec_rad g)),
         (''sigma_bar'', Val (lookup_default (dict_arg s ok) (Some ''sigma_bar'') (PyFloat (96 / 100)))),
         (''auto_iterate'', Val (lookup_default (dict_arg s ok) (Some ''auto_iterate'') (PyBool False)))]
        @ kws'"
        by (auto simp: initialize_opt_def iv dispatch_pogm dest!: py_call_Inr)
      then show ?thesis by simp
    qed
  next
    assume n: "n = Some ''fista''"
    with assms(2) obtain kws' where "kws =
        [(''x'', Arr xi), (''grad'', Grad g), (''prox'', Prox p), (''linear'', Lin l),
         (''beta_param'', Val (inv_spec_rad g)),
         (''lambda_param'', Val (lookup_default (dict_arg s ok) (Some ''lambda_param'') (PyFloat 1))),
         (''auto_iterate'', Val (lookup_default (dict_arg s ok) (Some ''auto_iterate'') (PyBool False)))]
        @ kws'"
      by (auto simp: initialize_opt_def iv dispatch_fista dest!: py_call_Inr)
    then show ?thesis by simp
  qed
qed

text \<open>
  Claim C4. \<^verbatim>\<open>beta = grad_op.inv_spec_rad\<close> is read once, before the dispatch on the name;
  whenever the \<^verbatim>\<open>POGM\<close> or the \<^verbatim>\<open>ForwardBackward\<close> constructor is called (names \<^verbatim>\<open>"pogm"\<close>
  and \<^verbatim>\<open>"fista"\<close>), its keyword \<^verbatim>\<open>beta_param\<close> is that value.
\<close>

theorem beta_param_is_inv_spec_rad:
  "opt_name = Some ''pogm'' \<or> opt_name = Some ''fista'' \<Longrightarrow>
   fst (initialize_opt opt_name grad_op linear_op prox_op x_init synthesis_init
          opt_kwargs metric_kwargs s) = Inr (Instance c kws) \<Longrightarrow>
   map_of kws ''beta_param'' = Some (Val (inv_spec_rad grad_op))"
  by (rule initialize_opt_beta)

text \<open>Claim C4 at a \<^verbatim>\<open>"pogm"\<close> call and at a \<^verbatim>\<open>"fista"\<close> call that both return.\<close>

theorem beta_param_is_inv_spec_rad_witness:
  "fst (initialize_opt (Some ''pogm'') ex_synthesis ex_linear (ProxOp 0) None False
          (Some 1) (Some 2) ex_store) = Inr (Instance POGM ex_pogm_kws) \<and>
   map_of ex_pogm_kws ''beta_param'' = Some (Val (inv_spec_rad ex_synthesis)) \<and>
   fst (initialize_opt (Some ''fista'') ex_analysis ex_linear (ProxOp 0) None False
          (Some 1) (Some 2) ex_store) = Inr (Instance ForwardBackward ex_fista_kws) \<and>
   map_of ex_fista_kws ''beta_param'' = Some (Val (inv_spec_rad ex_analysis))"
  using
    beta_param_is_inv_spec_rad [of "Some ''pogm''" ex_synthesis ex_linear "ProxOp 0" None False
      "Some 1" "Some 2" ex_store POGM ex_pogm_kws, OF _ ex_pogm_run]
    beta_param_is_inv_spec_rad [of "Some ''fista''" ex_analysis ex_linear "ProxOp 0" None False
      "Some 1" "Some 2" ex_store ForwardBackward ex_fista_kws, OF _ ex_fista_run]
    ex_pogm_run ex_fista_run
  by simp

section \<open>Forwarded keyword arguments (claim C5)\<close>

lemma or_dict_empty: "s a = [] \<Longrightarrow> or_dict s (Some a) = or_dict s None"
  by (simp add: or_dict_def)

lemma initialize_opt_empty_opt_kwargs:
  "s a = [] \<Longrightarrow>
   initialize_opt n g l p x syn (Some a) mk s = initialize_opt n g l p x syn None mk s"
  by (simp add: initialize_opt_def dispatch_def or_dict_empty)

lemma initialize_opt_empty_metric_kwargs:
  "s a = [] \<Longrightarrow>
   initialize_opt n g l p x syn ok (Some a) s = initialize_opt n g l p x syn ok None s"
  by (simp add: initialize_opt_def dispatch_def or_dict_empty)

lemma dict_arg_popped_store:
  "dict_arg (popped_store n s ok) mk =
     (if mk = ok then remaining n (dict_arg s ok) else dict_arg s mk)"
  by (auto simp: dict_arg_def popped_store_def remaining_def split: option.splits)

lemma map_of_kwarg:
  assumes "distinct (map fst (ex @ map kwarg fw))" and "(Some k, v) \<in> set fw"
  shows "map_of (ex @ map kwarg fw) k = Some (Val v)"
proof -
  have "kwarg (Some k, v) \<in> set (map kwarg fw)"
    using assms(2) by (simp only: set_map) (rule imageI)
  then have "(k, Val v) \<in> set (ex @ map kwarg fw)"
    by (simp add: kwarg_def py_str_def)
  with assms(1) show ?thesis
    by (rule map_of_is_SomeI)
qed

lemma initialize_opt_forwards:
  assumes v: "n \<in> valid_names" and a: "alpha_bound n g syn" and k: "keywords_ok n s ok mk"
  shows "\<exists>c ex. fst (initialize_opt n g l p x syn ok mk s) =
             Inr (Instance c (ex @ map kwarg (forwarded n s ok mk))) \<and>
           distinct (map fst (ex @ map kwarg (forwarded n s ok mk))) \<and>
           map fst ex = explicit_keywords n \<and>
           (n = Some ''pogm'' \<longrightarrow>
              map_of ex ''sigma_bar'' =
                Some (Val (lookup_default (dict_arg s ok) (Some ''sigma_bar'') (PyFloat (96 / 100)))) \<and>
              map_of ex ''auto_iterate'' =
                Some (Val (lookup_default (dict_arg s ok) (Some ''auto_iterate'') (PyBool False)))) \<and>
           (n = Some ''fista'' \<longrightarrow>
              map_of ex ''lambda_param'' =
                Some (Val (lookup_default (dict_arg s ok) (Some ''lambda_param'') (PyFloat 1))) \<and>
              map_of ex ''auto_iterate'' =
                Some (Val (lookup_default (dict_arg s ok) (Some ''auto_iterate'') (PyBool False))))"
proof -
  have d: "distinct (map fst (ex @ map kwarg (forwarded n s ok mk)))"
    if "map fst ex = explicit_keywords n" and "distinct (explicit_keywords n)" for ex
  proof -
    note kk = k [unfolded keywords_ok_def]
    have 1: "distinct (map fst (map kwarg (forwarded n s ok mk)))"
      using kk by (intro distinct_kwarg) simp_all
    have "Some ` (set (map fst ex) \<inter> set (map fst (map kwarg (forwarded n s ok mk)))) = {}"
      using kk set_fst_kwarg [of "forwarded n s ok mk"] that(1) by (auto simp: image_Int)
    then have 2: "set (map fst ex) \<inter> set (map fst (map kwarg (forwarded n s ok mk))) = {}"
      by simp
    show ?thesis
      using that 1 2 by (simp only: map_append distinct_append)
  qed
  consider "n = Some ''pogm''" | "n = Some ''fista''" | "n = Some ''condat-vu''"
    using v by (auto simp: valid_names_def)
  then show ?thesis
  proof cases
    case 1
    with a have b: "\<not> syn" "hasattr_linear_op g"
      by (simp_all add: alpha_bound_def)
    show ?thesis
      unfolding 1 initialize_opt_pogm_ok [OF b k [unfolded 1]] fst_conv
      by (intro exI conjI impI, rule refl, rule d [unfolded 1])
        (simp_all add: explicit_keywords_def)
  next
    case 2
    show ?thesis
      unfolding 2 initialize_opt_fista_ok [OF k [unfolded 2]] fst_conv
      by (intro exI conjI impI, rule refl, rule d [unfolded 2])
        (simp_all add: explicit_keywords_def)
  next
    case 3
    show ?thesis
      unfolding 3 initialize_opt_condat_ok [OF k [unfolded 3]] fst_conv
      by (intro exI conjI impI, rule refl, rule d [unfolded 3])
        (simp_all add: explicit_keywords_def)
  qed
qed

lemma map_of_append_Some: "map_of ex k = Some v \<Longrightarrow> map_of (ex @ r) k = Some v"
  by simp

lemma forwarded_no_alias:
  "ok = None \<or> ok \<noteq> mk \<Longrightarrow>
   forwarded n s ok mk = remaining n (dict_arg s ok) @ dict_arg s mk"
proof (cases "mk = ok")
  case True
  assume "ok = None \<or> ok \<noteq> mk"
  with True have "ok = None" "mk = None"
    by auto
  then show ?thesis
    by (simp add: forwarded_def popped_store_def dict_arg_def remaining_def)
next
  case False
  then show ?thesis
    by (simp only: forwarded_def dict_arg_popped_store if_False)
qed

lemma unpack_Inr:
  "unpack d = Inr kws \<Longrightarrow> None \<notin> fst ` set d \<and> kws = map kwarg d"
  by (induction d arbitrary: kws rule: unpack.induct)
    (auto simp: kwarg_def py_str_def split: sum.splits)

lemma py_call_Inr_kwarg:
  assumes "py_call c ex d1 d2 = Inr (Instance c' kws)"
  shows "kws = ex @ map kwarg (d1 @ d2) \<and> distinct (map fst kws)"
proof -
  from assms obtain kws' where u: "unpack (d1 @ d2) = Inr kws'"
    and k: "kws = ex @ kws'" and d: "distinct (map fst (ex @ kws'))"
    by (auto simp: py_call_def split: sum.splits if_splits)
  from unpack_Inr [OF u] have "kws' = map kwarg (d1 @ d2)"
    by blast
  with k d show ?thesis by blast
qed

lemma initialize_opt_Inr_forwarded:
  assumes "fst (initialize_opt n g l p x syn ok mk s) = Inr (Instance c kws)"
  shows "\<exists>ex. kws = ex @ map kwarg (forwarded n s ok mk) \<and> distinct (map fst kws)"
proof -
  obtain al xi where iv: "init_values g l (default_x_init g x) syn = (al, xi)"
    by (cases "init_values g l (default_x_init g x) syn") auto
  from assms have e: "fst (dispatch n g l p (al, xi) ok mk s) = Inr (Instance c kws)"
    by (simp add: initialize_opt_def iv)
  consider "n = Some ''pogm''" | "n = Some ''fista''" | "n = Some ''condat-vu''"
    | "n \<notin> valid_names"
    by (auto simp: valid_names_def)
  then show ?thesis
  proof cases
    case 1
    show ?thesis
    proof (cases al)
      case None
      with e 1 show ?thesis
        by (simp add: dispatch_pogm_unbound)
    next
      case (Some alpha)
      note py_call_Inr_kwarg [OF e [unfolded 1 Some dispatch_pogm fst_conv]]
      then show ?thesis
        unfolding 1 forwarded_split by blast
    qed
  next
    case 2
    note py_call_Inr_kwarg [OF e [unfolded 2 dispatch_fista fst_conv]]
    then show ?thesis
      unfolding 2 forwarded_split by blast
  next
    case 3
    note py_call_Inr_kwarg [OF e [unfolded 3 dispatch_condat fst_conv]]
    then show ?thesis
      unfolding 3 forwarded_split by blast
  next
    case 4
    with e show ?thesis
      by (simp add: dispatch_invalid)
  qed
qed

lemma initialize_opt_Inr_popped:
  assumes "fst (initialize_opt n g l p x syn ok mk s) = Inr (Instance c kws)"
    and "Some k \<in> set (popped_keys n)"
  shows "\<exists>dflt. map_of kws k = Some (Val (lookup_default (dict_arg s ok) (Some k) dflt))"
proof -
  obtain al xi where iv: "init_values g l (default_x_init g x) syn = (al, xi)"
    by (cases "init_values g l (default_x_init g x) syn") auto
  from assms(1) have e: "fst (dispatch n g l p (al, xi) ok mk s) = Inr (Instance c kws)"
    by (simp add: initialize_opt_def iv)
  consider "n = Some ''pogm''" | "n = Some ''fista''"
    using assms(2) by (auto simp: popped_keys_def split: if_splits)
  then show ?thesis
  proof cases
    case 1
    show ?thesis
    proof (cases al)
      case None
      with e 1 show ?thesis
        by (simp add: dispatch_pogm_unbound)
    next
      case (Some alpha)
      from py_call_Inr_kwarg [OF e [unfolded 1 Some dispatch_pogm fst_conv]]
      obtain kws' where "kws =
        [(''u'', Arr alpha), (''x'', Arr alpha), (''y'', Arr alpha), (''z'', Arr alpha),
         (''grad'', Grad g), (''prox'', Prox p), (''linear'', Lin l),
         (''beta_param'', Val (inv_spec_rad g)),
         (''sigma_bar'', Val (lookup_default (dict_arg s ok) (Some ''sigma_bar'') (PyFloat (96 / 100)))),
         (''auto_iterate'', Val (lookup_default (dict_arg s ok) (Some ''auto_iterate'') (PyBool False)))]
        @ kws'"
        by blast
      moreover from assms(2) 1 have "k = ''sigma_bar'' \<or> k = ''auto_iterate''"
        by (simp add: popped_keys_def)
      ultimately show ?thesis
        by auto
    qed
  next
    case 2
    from py_call_Inr_kwarg [OF e [unfolded 2 dispatch_fista fst_conv]]
    obtain kws' where "kws =
        [(''x'', Arr xi), (''grad'', Grad g), (''prox'', Prox p), (''linear'', Lin l),
         (''beta_param'', Val (inv_spec_rad g)),
         (''lambda_param'', Val (lookup_default (dict_arg s ok) (Some ''lambda_param'') (PyFloat 1))),
         (''auto_iterate'', Val (lookup_default (dict_arg s ok) (Some ''auto_iterate'') (PyBool False)))]
        @ kws'"
      by blast
    moreover from assms(2) 2 have "k = ''lambda_param'' \<or> k = ''auto_iterate''"
      by (simp add: popped_keys_def)
    ultimately show ?thesis
      by auto
  qed
qed

lemma lookup_default_distinct:
  "distinct (map fst d) \<Longrightarrow> (k, v) \<in> set d \<Longrightarrow> lookup_default d k dflt = v"
  by (simp add: lookup_default_def)

lemma remaining_pair_forwarded:
  assumes "fst (initialize_opt n g l p x syn ok mk s) = Inr (Instance c kws)"
    and "(Some k, v) \<in> set (remaining n (dict_arg s ok))"
  shows "map_of kws k = Some (Val v)"
proof -
  from initialize_opt_Inr_forwarded [OF assms(1)]
  obtain ex where k: "kws = ex @ map kwarg (forwarded n s ok mk)"
    and d: "distinct (map fst kws)"
    by blast
  have "(Some k, v) \<in> set (forwarded n s ok mk)"
    using assms(2) by (simp only: forwarded_split set_append Un_iff) blast
  with d show ?thesis
    unfolding k by (rule map_of_kwarg)
qed

lemma metric_pair_forwarded:
  assumes r: "fst (initialize_opt n g l p x syn ok mk s) = Inr (Instance c kws)"
    and d: "distinct (map fst (dict_arg s mk))"
    and m: "(Some k, v) \<in> set (dict_arg s mk)"
  shows "map_of kws k = Some (Val v)"
proof (cases "mk = ok")
  case False
  from initialize_opt_Inr_forwarded [OF r]
  obtain ex where k: "kws = ex @ map kwarg (forwarded n s ok mk)"
    and dk: "distinct (map fst kws)"
    by blast
  have "dict_arg (popped_store n s ok) mk = dict_arg s mk"
    using False by (simp only: dict_arg_popped_store if_False)
  with m have "(Some k, v) \<in> set (forwarded n s ok mk)"
    by (simp only: forwarded_split set_append Un_iff) blast
  with dk show ?thesis
    unfolding k by (rule map_of_kwarg)
next
  case True
  show ?thesis
  proof (cases "Some k \<in> set (popped_keys n)")
    case False
    with m True have "(Some k, v) \<in> set (remaining n (dict_arg s ok))"
      by (simp add: remaining_def)
    with r show ?thesis
      by (rule remaining_pair_forwarded)
  next
    case popped: True
    from initialize_opt_Inr_popped [OF r popped]
    obtain dflt where "map_of kws k = Some (Val (lookup_default (dict_arg s ok) (Some k) dflt))"
      by blast
    moreover have "lookup_default (dict_arg s ok) (Some k) dflt = v"
      using d m True by (simp add: lookup_default_distinct)
    ultimately show ?thesis
      by simp
  qed
qed

lemma initialize_opt_forwards_pairs:
  assumes "n \<in> valid_names" and "alpha_bound n g syn" and "keywords_ok n s ok mk"
    and "distinct (map fst (dict_arg s mk))"
  shows "\<exists>c kws. fst (initialize_opt n g l p x syn ok mk s) = Inr (Instance c kws) \<and>
           (\<forall>k v. (Some k, v) \<in> set (remaining n (dict_arg s ok)) \<longrightarrow>
              map_of kws k = Some (Val v)) \<and>
           (\<forall>k v. (Some k, v) \<in> set (dict_arg s mk) \<longrightarrow> map_of kws k = Some (Val v)) \<and>
           (n = Some ''pogm'' \<longrightarrow>
              map_of kws ''sigma_bar'' =
                Some (Val (lookup_default (dict_arg s ok) (Some ''sigma_bar'') (PyFloat (96 / 100)))) \<and>
              map_of kws ''auto_iterate'' =
                Some (Val (lookup_default (dict_arg s ok) (Some ''auto_iterate'') (PyBool False)))) \<and>
           (n = Some ''fista'' \<longrightarrow>
              map_of kws ''lambda_param'' =
                Some (Val (lookup_default (dict_arg s ok) (Some ''lambda_param'') (PyFloat 1))) \<and>
              map_of kws ''auto_iterate'' =
                Some (Val (lookup_default (dict_arg s ok) (Some ''auto_iterate'') (PyBool False))))"
proof -
  from initialize_opt_forwards [OF assms(1-3), of l p x]
  obtain c ex where r: "fst (initialize_opt n g l p x syn ok mk s) =
             Inr (Instance c (ex @ map kwarg (forwarded n s ok mk)))"
    and pg: "n = Some ''pogm'' \<longrightarrow>
              map_of ex ''sigma_bar'' =
                Some (Val (lookup_default (dict_arg s ok) (Some ''sigma_bar'') (PyFloat (96 / 100)))) \<and>
              map_of ex ''auto_iterate'' =
                Some (Val (lookup_default (dict_arg s ok) (Some ''auto_iterate'') (PyBool False)))"
    and fi: "n = Some ''fista'' \<longrightarrow>
              map_of ex ''lambda_param'' =
                Some (Val (lookup_default (dict_arg s ok) (Some ''lambda_param'') (PyFloat 1))) \<and>
              map_of ex ''auto_iterate'' =
                Some (Val (lookup_default (dict_arg s ok) (Some ''auto_iterate'') (PyBool False)))"
    by blast
  let ?kws = "ex @ map kwarg (forwarded n s ok mk)"
  have 1: "\<forall>k v. (Some k, v) \<in> set (remaining n (dict_arg s ok)) \<longrightarrow>
              map_of ?kws k = Some (Val v)"
    using remaining_pair_forwarded [OF r] by blast
  have 2: "\<forall>k v. (Some k, v) \<in> set (dict_arg s mk) \<longrightarrow> map_of ?kws k = Some (Val v)"
    using metric_pair_forwarded [OF r assms(4)] by blast
  have 3: "n = Some ''pogm'' \<longrightarrow>
              map_of ?kws ''sigma_bar'' =
                Some (Val (lookup_default (dict_arg s ok) (Some ''sigma_bar'') (PyFloat (96 / 100)))) \<and>
              map_of ?kws ''auto_iterate'' =
                Some (Val (lookup_default (dict_arg s ok) (Some ''auto_iterate'') (PyBool False)))"
    using pg map_of_append_Some [of ex] by blast
  have 4: "n = Some ''fista'' \<longrightarrow>
              map_of ?kws ''lambda_param'' =
                Some (Val (lookup_default (dict_arg s ok) (Some ''lambda_param'') (PyFloat 1))) \<and>
              map_of ?kws ''auto_iterate'' =
                Some (Val (lookup_default (dict_arg s ok) (Some ''auto_iterate'') (PyBool False)))"
    using fi map_of_append_Some [of ex] by blast
  from r 1 2 3 4 show ?thesis by blast
qed

lemma initialize_opt_Inr_pairs:
  assumes "fst (initialize_opt n g l p x syn ok mk s) = Inr (Instance c kws)"
    and "(Some k, v) \<in> set (remaining n (dict_arg s ok)) \<or>
         distinct (map fst (dict_arg s mk)) \<and> (Some k, v) \<in> set (dict_arg s mk)"
  shows "map_of kws k = Some (Val v)"
  using assms(2)
proof (elim disjE conjE)
  assume "(Some k, v) \<in> set (remaining n (dict_arg s ok))"
  with assms(1) show ?thesis
    by (rule remaining_pair_forwarded)
next
  assume "distinct (map fst (dict_arg s mk))" and "(Some k, v) \<in> set (dict_arg s mk)"
  with assms(1) show ?thesis
    by (rule metric_pair_forwarded)
qed

text \<open>
  Claim C5, as amended. Dictionaries have pairwise different keys, as Python's have. For
  each of the three names, when the constructor is called (the keyword arguments are well
  formed and, for \<^verbatim>\<open>"pogm"\<close>, \<^verbatim>\<open>alpha_init\<close> is bound), every pair that remains in
  \<^verbatim>\<open>opt_kwargs\<close> once the name-specific keys are popped, and every pair of \<^verbatim>\<open>metric_kwargs\<close>,
  is a keyword argument of the call with its value unchanged, also when both arguments are
  the same dictionary; the popped keys \<^verbatim>\<open>sigma_bar\<close>, \<^verbatim>\<open>auto_iterate\<close> and \<^verbatim>\<open>lambda_param\<close> carry
  the caller's value or the defaults \<^verbatim>\<open>0.96\<close>, \<^verbatim>\<open>False\<close> and \<^verbatim>\<open>1.0\<close>. Conversely, whenever a
  call enters a constructor, those pairs are among its keyword arguments. Passing an empty
  dictionary as \<^verbatim>\<open>opt_kwargs\<close> or as \<^verbatim>\<open>metric_kwargs\<close> gives the same result and the same store
  as passing \<^verbatim>\<open>None\<close>, in every call.
\<close>

theorem kwargs_forwarded:
  "(opt_name \<in> valid_names \<and> alpha_bound opt_name grad_op synthesis_init \<and>
    keywords_ok opt_name s opt_kwargs metric_kwargs \<and>
    distinct (map fst (dict_arg s metric_kwargs)) \<longrightarrow>
      (\<exists>c kws.
         fst (initialize_opt opt_name grad_op linear_op prox_op x_init synthesis_init
                opt_kwargs metric_kwargs s) = Inr (Instance c kws) \<and>
         (\<forall>k v. (Some k, v) \<in> set (remaining opt_name (dict_arg s opt_kwargs)) \<longrightarrow>
            map_of kws k = Some (Val v)) \<and>
         (\<forall>k v. (Some k, v) \<in> set (dict_arg s metric_kwargs) \<longrightarrow>
            map_of kws k = Some (Val v)) \<and>
         (opt_name = Some ''pogm'' \<longrightarrow>
            map_of kws ''sigma_bar'' =
              Some (Val (lookup_default (dict_arg s opt_kwargs) (Some ''sigma_bar'')
                           (PyFloat (96 / 100)))) \<and>
            map_of kws ''auto_iterate'' =
              Some (Val (lookup_default (dict_arg s opt_kwargs) (Some ''auto_iterate'')
                           (PyBool False)))) \<and>
         (opt_name = Some ''fista'' \<longrightarrow>
            map_of kws ''lambda_param'' =
              Some (Val (lookup_default (dict_arg s opt_kwargs) (Some ''lambda_param'')
                           (PyFloat 1))) \<and>
            map_of kws ''auto_iterate'' =
              Some (Val (lookup_default (dict_arg s opt_kwargs) (Some ''auto_iterate'')
                           (PyBool False)))))) \<and>
   (\<forall>c kws k v.
      fst (initialize_opt opt_name grad_op linear_op prox_op x_init synthesis_init
             opt_kwargs metric_kwargs s) = Inr (Instance c kws) \<and>
      ((Some k, v) \<in> set (remaining opt_name (dict_arg s opt_kwargs)) \<or>
       distinct (map fst (dict_arg s metric_kwargs)) \<and>
       (Some k, v) \<in> set (dict_arg s metric_kwargs)) \<longrightarrow>
      map_of kws k = Some (Val v)) \<and>
   (s a = [] \<longrightarrow>
      initialize_opt opt_name grad_op linear_op prox_op x_init synthesis_init
          (Some a) metric_kwargs s =
        initialize_opt opt_name grad_op linear_op prox_op x_init synthesis_init
          None metric_kwargs s) \<and>
   (s a = [] \<longrightarrow>
      initialize_opt opt_name grad_op linear_op prox_op x_init synthesis_init
          opt_kwargs (Some a) s =
        initialize_opt opt_name grad_op linear_op prox_op x_init synthesis_init
          opt_kwargs None s)"
proof (intro conjI impI allI)
  assume "opt_name \<in> valid_names \<and> alpha_bound opt_name grad_op synthesis_init \<and>
    keywords_ok opt_name s opt_kwargs metric_kwargs \<and>
    distinct (map fst (dict_arg s metric_kwargs))"
  then show "\<exists>c kws.
         fst (initialize_opt opt_name grad_op linear_op prox_op x_init synthesis_init
                opt_kwargs metric_kwargs s) = Inr (Instance c kws) \<and>
         (\<forall>k v. (Some k, v) \<in> set (remaining opt_name (dict_arg s opt_kwargs)) \<longrightarrow>
            map_of kws k = Some (Val v)) \<and>
         (\<forall>k v. (Some k, v) \<in> set (dict_arg s metric_kwargs) \<longrightarrow>
            map_of kws k = Some (Val v)) \<and>
         (opt_name = Some ''pogm'' \<longrightarrow>
            map_of kws ''sigma_bar'' =
              Some (Val (lookup_default (dict_arg s opt_kwargs) (Some ''sigma_bar'')
                           (PyFloat (96 / 100)))) \<and>
            map_of kws ''auto_iterate'' =
              Some (Val (lookup_default (dict_arg s opt_kwargs) (Some ''auto_iterate'')
                           (PyBool False)))) \<and>
         (opt_name = Some ''fista'' \<longrightarrow>
            map_of kws ''lambda_param'' =
              Some (Val (lookup_default (dict_arg s opt_kwargs) (Some ''lambda_param'')
                           (PyFloat 1))) \<and>
            map_of kws ''auto_iterate'' =
              Some (Val (lookup_default (dict_arg s opt_kwargs) (Some ''auto_iterate'')
                           (PyBool False))))"
    by (intro initialize_opt_forwards_pairs) simp_all
next
  fix c kws k v
  assume "fst (initialize_opt opt_name grad_op linear_op prox_op x_init synthesis_init
             opt_kwargs metric_kwargs s) = Inr (Instance c kws) \<and>
      ((Some k, v) \<in> set (remaining opt_name (dict_arg s opt_kwargs)) \<or>
       distinct (map fst (dict_arg s metric_kwargs)) \<and>
       (Some k, v) \<in> set (dict_arg s metric_kwargs))"
  then show "map_of kws k = Some (Val v)"
    using initialize_opt_Inr_pairs by blast
next
  assume "s a = []"
  then show "initialize_opt opt_name grad_op linear_op prox_op x_init synthesis_init
          (Some a) metric_kwargs s =
        initialize_opt opt_name grad_op linear_op prox_op x_init synthesis_init
          None metric_kwargs s"
    by (rule initialize_opt_empty_opt_kwargs)
next
  assume "s a = []"
  then show "initialize_opt opt_name grad_op linear_op prox_op x_init synthesis_init
          opt_kwargs (Some a) s =
        initialize_opt opt_name grad_op linear_op prox_op x_init synthesis_init
          opt_kwargs None s"
    by (rule initialize_opt_empty_metric_kwargs)
qed

text \<open>
  The amended claim C5 at \<^verbatim>\<open>"fista"\<close> with
  \<^verbatim>\<open>opt_kwargs = {"lambda_param": 0.5, "sigma_bar": 0.75, "verbose": 1}\<close> and
  \<^verbatim>\<open>metric_kwargs = {"metric_call_period": 5}\<close>; at \<^verbatim>\<open>"pogm"\<close> with the one dictionary
  \<^verbatim>\<open>{"sigma_bar": 0.75}\<close> passed as both arguments; and at the empty dictionary of address 7.
\<close>

theorem kwargs_forwarded_witness:
  "Some ''fista'' \<in> valid_names \<and>
   alpha_bound (Some ''fista'') ex_analysis False \<and>
   keywords_ok (Some ''fista'') ex_store (Some 1) (Some 2) \<and>
   distinct (map fst (dict_arg ex_store (Some 2))) \<and>
   (\<exists>c kws.
      fst (initialize_opt (Some ''fista'') ex_analysis ex_linear (ProxOp 0) None False
             (Some 1) (Some 2) ex_store) = Inr (Instance c kws) \<and>
      map_of kws ''sigma_bar'' = Some (Val (PyFloat (3 / 4))) \<and>
      map_of kws ''verbose'' = Some (Val (PyInt 1)) \<and>
      map_of kws ''metric_call_period'' = Some (Val (PyInt 5)) \<and>
      map_of kws ''lambda_param'' = Some (Val (PyFloat (1 / 2))) \<and>
      map_of kws ''auto_iterate'' = Some (Val (PyBool False))) \<and>
   Some ''pogm'' \<in> valid_names \<and>
   alpha_bound (Some ''pogm'') ex_synthesis False \<and>
   keywords_ok (Some ''pogm'') ex_store (Some 5) (Some 5) \<and>
   distinct (map fst (dict_arg ex_store (Some 5))) \<and>
   (\<exists>c kws.
      fst (initialize_opt (Some ''pogm'') ex_synthesis ex_linear (ProxOp 0) None False
             (Some 5) (Some 5) ex_store) = Inr (Instance c kws) \<and>
      map_of kws ''sigma_bar'' = Some (Val (PyFloat (3 / 4)))) \<and>
   ex_store 7 = [] \<and>
   initialize_opt (Some ''fista'') ex_analysis ex_linear (ProxOp 0) None False
       (Some 7) (Some 2) ex_store =
     initialize_opt (Some ''fista'') ex_analysis ex_linear (ProxOp 0) None False
       None (Some 2) ex_store \<and>
   initialize_opt (Some ''fista'') ex_analysis ex_linear (ProxOp 0) None False
       (Some 1) (Some 7) ex_store =
     initialize_opt (Some ''fista'') ex_analysis ex_linear (ProxOp 0) None False
       (Some 1) None ex_store"
proof -
  have h: "Some ''fista'' \<in> valid_names \<and> alpha_bound (Some ''fista'') ex_analysis False \<and>
      keywords_ok (Some ''fista'') ex_store (Some 1) (Some 2) \<and>
      distinct (map fst (dict_arg ex_store (Some 2)))"
    by (simp add: vocab_defs ex_defs)
  have h': "Some ''pogm'' \<in> valid_names \<and> alpha_bound (Some ''pogm'') ex_synthesis False \<and>
      keywords_ok (Some ''pogm'') ex_store (Some 5) (Some 5) \<and>
      distinct (map fst (dict_arg ex_store (Some 5)))"
    by (simp add: vocab_defs ex_defs)
  have e: "ex_store 7 = []"
    by (simp add: ex_defs)
  have r: "remaining (Some ''fista'') (dict_arg ex_store (Some 1)) =
      [(Some ''sigma_bar'', PyFloat (3 / 4)), (Some ''verbose'', PyInt 1)]"
    by (simp add: vocab_defs ex_defs)
  have m: "dict_arg ex_store (Some 2) = [(Some ''metric_call_period'', PyInt 5)]"
    by (simp add: vocab_defs ex_defs)
  have m': "dict_arg ex_store (Some 5) = [(Some ''sigma_bar'', PyFloat (3 / 4))]"
    by (simp add: vocab_defs ex_defs)
  have l: "lookup_default (dict_arg ex_store (Some 1)) (Some ''lambda_param'') (PyFloat 1) =
      PyFloat (1 / 2)"
    "lookup_default (dict_arg ex_store (Some 1)) (Some ''auto_iterate'') (PyBool False) =
      PyBool False"
    by (simp_all add: vocab_defs ex_defs)
  note t = kwargs_forwarded [of "Some ''fista''" ex_analysis False ex_store "Some 1" "Some 2"
      ex_linear "ProxOp 0" None 7]
  note t' = kwargs_forwarded [of "Some ''pogm''" ex_synthesis False ex_store "Some 5" "Some 5"
      ex_linear "ProxOp 0" None 7]
  from t [THEN conjunct1, THEN mp, OF h, unfolded r m l]
  obtain c kws where
    1: "fst (initialize_opt (Some ''fista'') ex_analysis ex_linear (ProxOp 0) None False
             (Some 1) (Some 2) ex_store) = Inr (Instance c kws)"
    and 2: "\<forall>k v. (Some k, v) \<in>
              set [(Some ''sigma_bar'', PyFloat (3 / 4)), (Some ''verbose'', PyInt 1)] \<longrightarrow>
            map_of kws k = Some (Val v)"
    and 3: "\<forall>k v. (Some k, v) \<in> set [(Some ''metric_call_period'', PyInt 5)] \<longrightarrow>
            map_of kws k = Some (Val v)"
    and 4: "map_of kws ''lambda_param'' = Some (Val (PyFloat (1 / 2))) \<and>
            map_of kws ''auto_iterate'' = Some (Val (PyBool False))"
    by auto
  from 2 have 5: "map_of kws ''sigma_bar'' = Some (Val (PyFloat (3 / 4)))"
    "map_of kws ''verbose'' = Some (Val (PyInt 1))"
    by simp_all
  from 3 have 6: "map_of kws ''metric_call_period'' = Some (Val (PyInt 5))"
    by simp
  have 7: "\<exists>c kws.
      fst (initialize_opt (Some ''fista'') ex_analysis ex_linear (ProxOp 0) None False
             (Some 1) (Some 2) ex_store) = Inr (Instance c kws) \<and>
      map_of kws ''sigma_bar'' = Some (Val (PyFloat (3 / 4))) \<and>
      map_of kws ''verbose'' = Some (Val (PyInt 1)) \<and>
      map_of kws ''metric_call_period'' = Some (Val (PyInt 5)) \<and>
      map_of kws ''lambda_param'' = Some (Val (PyFloat (1 / 2))) \<and>
      map_of kws ''auto_iterate'' = Some (Val (PyBool False))"
    using 1 4 5 6 by blast
  from t' [THEN conjunct1, THEN mp, OF h', unfolded m']
  obtain c' kws' where
    8: "fst (initialize_opt (Some ''pogm'') ex_synthesis ex_linear (ProxOp 0) None False
             (Some 5) (Some 5) ex_store) = Inr (Instance c' kws')"
    and 9: "\<forall>k v. (Some k, v) \<in> set [(Some ''sigma_bar'', PyFloat (3 / 4))] \<longrightarrow>
            map_of kws' k = Some (Val v)"
    by auto
  from 9 have "map_of kws' ''sigma_bar'' = Some (Val (PyFloat (3 / 4)))"
    by simp
  with 8 have 10: "\<exists>c kws.
      fst (initialize_opt (Some ''pogm'') ex_synthesis ex_linear (ProxOp 0) None False
             (Some 5) (Some 5) ex_store) = Inr (Instance c kws) \<and>
      map_of kws ''sigma_bar'' = Some (Val (PyFloat (3 / 4)))"
    by blast
  note n1 = t [THEN conjunct2, THEN conjunct2, THEN conjunct1, THEN mp, OF e]
  note n2 = t [THEN conjunct2, THEN conjunct2, THEN conjunct2, THEN mp, OF e]
  from h h' e 7 10 n1 n2 show ?thesis
    by blast
qed

text \<open>
  Claim C5 as stated fails: with \<^verbatim>\<open>"fista"\<close> and \<^verbatim>\<open>opt_kwargs = {"x": 1}\<close> the pair that
  remains in \<^verbatim>\<open>opt_kwargs\<close> repeats the keyword \<^verbatim>\<open>x\<close> of the call; Python raises
  \<^verbatim>\<open>TypeError\<close> and the pair reaches no constructor.
\<close>

theorem not_forwarded_counterexample:
  "fst (initialize_opt (Some ''fista'') ex_analysis ex_linear (ProxOp 0) None False
          (Some 3) None ex_store) = Inl TypeError"
  by (simp add: model_defs vocab_defs ex_defs Let_def)

section \<open>Operator selection and the table (claims C3 and C6)\<close>

text \<open>
  Claim C3, as amended. \<^verbatim>\<open>get_grad_op\<close> calls the \<^verbatim>\<open>GradAnalysis\<close> constructor exactly when
  \<^verbatim>\<open>grad_formulation\<close> is \<^verbatim>\<open>"analysis"\<close>, with \<^verbatim>\<open>fourier_op\<close>, \<^verbatim>\<open>verbose\<close> and the extra
  keywords, and the \<^verbatim>\<open>GradSynthesis\<close> constructor exactly when it is \<^verbatim>\<open>"synthesis"\<close>, with
  \<^verbatim>\<open>linear_op\<close> and \<^verbatim>\<open>fourier_op\<close> as well. It returns the operator that constructor returns,
  and an exception of the constructor leaves the function: an operator is returned if and
  only if the formulation is one of the two and the constructor accepts the call. For
  every other value no constructor is called and the function returns \<^verbatim>\<open>None\<close>.
\<close>

theorem get_grad_op_selects:
  "((\<exists>f v k. get_grad_op fourier_op grad_formulation linear_op verbose kwargs =
        Some (GradAnalysis f v k)) \<longleftrightarrow> grad_formulation = Some ''analysis'') \<and>
   (get_grad_op fourier_op grad_formulation linear_op verbose kwargs =
        Some (GradAnalysis fourier_op verbose kwargs) \<longleftrightarrow>
      grad_formulation = Some ''analysis'') \<and>
   ((\<exists>lo f v k. get_grad_op fourier_op grad_formulation linear_op verbose kwargs =
        Some (GradSynthesis lo f v k)) \<longleftrightarrow> grad_formulation = Some ''synthesis'') \<and>
   (get_grad_op fourier_op grad_formulation linear_op verbose kwargs =
        Some (GradSynthesis linear_op fourier_op verbose kwargs) \<longleftrightarrow>
      grad_formulation = Some ''synthesis'') \<and>
   (get_grad_op fourier_op grad_formulation linear_op verbose kwargs = None \<longleftrightarrow>
      grad_formulation \<noteq> Some ''analysis'' \<and> grad_formulation \<noteq> Some ''synthesis'') \<and>
   (\<forall>g. get_grad_op_outcome lib fourier_op grad_formulation linear_op verbose kwargs =
          Inr (Some g) \<longleftrightarrow>
        grad_formulation = Some ''analysis'' \<and>
          lib (GradAnalysis fourier_op verbose kwargs) = Inr g \<or>
        grad_formulation = Some ''synthesis'' \<and>
          lib (GradSynthesis linear_op fourier_op verbose kwargs) = Inr g) \<and>
   (\<forall>e. get_grad_op_outcome lib fourier_op grad_formulation linear_op verbose kwargs = Inl e \<longleftrightarrow>
        grad_formulation = Some ''analysis'' \<and>
          lib (GradAnalysis fourier_op verbose kwargs) = Inl e \<or>
        grad_formulation = Some ''synthesis'' \<and>
          lib (GradSynthesis linear_op fourier_op verbose kwargs) = Inl e) \<and>
   (get_grad_op_outcome lib fourier_op grad_formulation linear_op verbose kwargs = Inr None \<longleftrightarrow>
      grad_formulation \<noteq> Some ''analysis'' \<and> grad_formulation \<noteq> Some ''synthesis'')"
proof -
  have 1: "((\<exists>f v k. get_grad_op fourier_op grad_formulation linear_op verbose kwargs =
        Some (GradAnalysis f v k)) \<longleftrightarrow> grad_formulation = Some ''analysis'') \<and>
   (get_grad_op fourier_op grad_formulation linear_op verbose kwargs =
        Some (GradAnalysis fourier_op verbose kwargs) \<longleftrightarrow>
      grad_formulation = Some ''analysis'') \<and>
   ((\<exists>lo f v k. get_grad_op fourier_op grad_formulation linear_op verbose kwargs =
        Some (GradSynthesis lo f v k)) \<longleftrightarrow> grad_formulation = Some ''synthesis'') \<and>
   (get_grad_op fourier_op grad_formulation linear_op verbose kwargs =
        Some (GradSynthesis linear_op fourier_op verbose kwargs) \<longleftrightarrow>
      grad_formulation = Some ''synthesis'') \<and>
   (get_grad_op fourier_op grad_formulation linear_op verbose kwargs = None \<longleftrightarrow>
      grad_formulation \<noteq> Some ''analysis'' \<and> grad_formulation \<noteq> Some ''synthesis'')"
    by (simp add: get_grad_op_def)
  have 2: "\<forall>g. get_grad_op_outcome lib fourier_op grad_formulation linear_op verbose kwargs =
          Inr (Some g) \<longleftrightarrow>
        grad_formulation = Some ''analysis'' \<and>
          lib (GradAnalysis fourier_op verbose kwargs) = Inr g \<or>
        grad_formulation = Some ''synthesis'' \<and>
          lib (GradSynthesis linear_op fourier_op verbose kwargs) = Inr g"
    by (auto simp: get_grad_op_outcome_def get_grad_op_def split: sum.splits)
  have 3: "\<forall>e. get_grad_op_outcome lib fourier_op grad_formulation linear_op verbose kwargs =
          Inl e \<longleftrightarrow>
        grad_formulation = Some ''analysis'' \<and>
          lib (GradAnalysis fourier_op verbose kwargs) = Inl e \<or>
        grad_formulation = Some ''synthesis'' \<and>
          lib (GradSynthesis linear_op fourier_op verbose kwargs) = Inl e"
    by (auto simp: get_grad_op_outcome_def get_grad_op_def split: sum.splits)
  have 4: "get_grad_op_outcome lib fourier_op grad_formulation linear_op verbose kwargs =
        Inr None \<longleftrightarrow>
      grad_formulation \<noteq> Some ''analysis'' \<and> grad_formulation \<noteq> Some ''synthesis''"
    by (auto simp: get_grad_op_outcome_def get_grad_op_def split: sum.splits)
  from 1 2 3 4 show ?thesis
    by (intro conjI) (elim conjE, assumption)+
qed

text \<open>
  The amended claim C3 with the example library: at \<^verbatim>\<open>"analysis"\<close> and at \<^verbatim>\<open>"synthesis"\<close>
  with a linear operator the constructor called returns the operator, and at \<^verbatim>\<open>None\<close> no
  constructor is called.
\<close>

theorem get_grad_op_selects_witness:
  "get_grad_op ex_fourier (Some ''analysis'') (Some ex_linear) (PyBool False) [] =
     Some (GradAnalysis ex_fourier (PyBool False) []) \<and>
   get_grad_op_outcome ex_grad_library ex_fourier (Some ''analysis'') (Some ex_linear)
       (PyBool False) [] = Inr (Some ex_analysis) \<and>
   get_grad_op ex_fourier (Some ''synthesis'') (Some ex_linear) (PyBool False) [] =
     Some (GradSynthesis (Some ex_linear) ex_fourier (PyBool False) []) \<and>
   get_grad_op_outcome ex_grad_library ex_fourier (Some ''synthesis'') (Some ex_linear)
       (PyBool False) [] = Inr (Some ex_synthesis) \<and>
   get_grad_op ex_fourier None (Some ex_linear) (PyBool False) [] = None \<and>
   get_grad_op_outcome ex_grad_library ex_fourier None (Some ex_linear) (PyBool False) [] =
     Inr None"
proof -
  have a: "ex_grad_library (GradAnalysis ex_fourier (PyBool False) []) = Inr ex_analysis"
    by (simp add: ex_analysis_def)
  have b: "ex_grad_library (GradSynthesis (Some ex_linear) ex_fourier (PyBool False) []) =
      Inr ex_synthesis"
    by (simp add: ex_synthesis_def)
  note t1 = get_grad_op_selects [of ex_fourier "Some ''analysis''" "Some ex_linear"
      "PyBool False" "[]" ex_grad_library]
  note t2 = get_grad_op_selects [of ex_fourier "Some ''synthesis''" "Some ex_linear"
      "PyBool False" "[]" ex_grad_library]
  note t3 = get_grad_op_selects [of ex_fourier None "Some ex_linear" "PyBool False" "[]"
      ex_grad_library]
  from t1 a have 1: "get_grad_op ex_fourier (Some ''analysis'') (Some ex_linear) (PyBool False) [] =
      Some (GradAnalysis ex_fourier (PyBool False) []) \<and>
    get_grad_op_outcome ex_grad_library ex_fourier (Some ''analysis'') (Some ex_linear)
       (PyBool False) [] = Inr (Some ex_analysis)"
    by simp
  from t2 b have 2: "get_grad_op ex_fourier (Some ''synthesis'') (Some ex_linear) (PyBool False) [] =
      Some (GradSynthesis (Some ex_linear) ex_fourier (PyBool False) []) \<and>
    get_grad_op_outcome ex_grad_library ex_fourier (Some ''synthesis'') (Some ex_linear)
       (PyBool False) [] = Inr (Some ex_synthesis)"
    by simp
  from t3 have 3: "get_grad_op ex_fourier None (Some ex_linear) (PyBool False) [] = None \<and>
    get_grad_op_outcome ex_grad_library ex_fourier None (Some ex_linear) (PyBool False) [] =
      Inr None"
    by simp
  from 1 2 3 show ?thesis
    by blast
qed

text \<open>
  Claim C3 as stated fails: with \<^verbatim>\<open>grad_formulation = "synthesis"\<close> and \<^verbatim>\<open>linear_op\<close> left at
  its default \<^verbatim>\<open>None\<close>, the \<^verbatim>\<open>GradSynthesis\<close> constructor is called and raises
  \<^verbatim>\<open>AttributeError\<close>, so that \<^verbatim>\<open>get_grad_op\<close> returns no \<^verbatim>\<open>GradSynthesis\<close>.
\<close>

theorem get_grad_op_raises_counterexample:
  "get_grad_op_outcome ex_grad_library ex_fourier (Some ''synthesis'') None (PyBool False) [] =
     Inl AttributeError"
  by (simp add: get_grad_op_outcome_def get_grad_op_def)

lemma OPTIMIZERS_keys:
  "(\<exists>f. map_of OPTIMIZERS n = Some (PyStr f)) \<longleftrightarrow> n \<in> valid_names"
  by (auto simp: OPTIMIZERS_def valid_names_def split: if_splits)

lemma valid_no_ValueError:
  "(\<forall>msg. fst (initialize_opt n g l p x syn ok mk s) \<noteq> Inl (ValueError msg)) \<longleftrightarrow>
   n \<in> valid_names"
proof
  assume a: "\<forall>msg. fst (initialize_opt n g l p x syn ok mk s) \<noteq> Inl (ValueError msg)"
  show "n \<in> valid_names"
  proof (rule ccontr)
    assume "n \<notin> valid_names"
    then have "fst (initialize_opt n g l p x syn ok mk s) =
        Inl (ValueError (''Optimizer '' @ py_str n @ '' not implemented''))"
      by (simp add: initialize_opt_invalid)
    with a show False by blast
  qed
next
  assume "n \<in> valid_names"
  then show "\<forall>msg. fst (initialize_opt n g l p x syn ok mk s) \<noteq> Inl (ValueError msg)"
    using initialize_opt_valid_error by fastforce
qed

lemma OPTIMIZERS_formulation:
  "map_of OPTIMIZERS n = Some (PyStr f) \<Longrightarrow> get_grad_op fo (Some f) lo v kw \<noteq> None"
  by (auto simp: OPTIMIZERS_def get_grad_op_def split: if_splits)

text \<open>
  Claim C6. The table \<^verbatim>\<open>OPTIMIZERS\<close> has exactly four entries, with pairwise different
  keys: \<^verbatim>\<open>"pogm"\<close> maps to \<^verbatim>\<open>"synthesis"\<close>, \<^verbatim>\<open>"fista"\<close> and \<^verbatim>\<open>"condat-vu"\<close> map to
  \<^verbatim>\<open>"analysis"\<close>, and \<^verbatim>\<open>None\<close> maps to \<^verbatim>\<open>None\<close>. The names the table maps to a formulation
  are exactly the names \<^verbatim>\<open>initialize_opt\<close> supports (those for which it does not raise
  \<^verbatim>\<open>ValueError\<close>), and each such formulation is one \<^verbatim>\<open>get_grad_op\<close> builds an operator for.
\<close>

theorem OPTIMIZERS_table:
  "length OPTIMIZERS = 4 \<and>
   distinct (map fst OPTIMIZERS) \<and>
   map_of OPTIMIZERS (Some ''pogm'') = Some (PyStr ''synthesis'') \<and>
   map_of OPTIMIZERS (Some ''fista'') = Some (PyStr ''analysis'') \<and>
   map_of OPTIMIZERS (Some ''condat-vu'') = Some (PyStr ''analysis'') \<and>
   map_of OPTIMIZERS None = Some PyNone \<and>
   ((\<exists>f. map_of OPTIMIZERS opt_name = Some (PyStr f)) \<longleftrightarrow>
      (\<forall>msg. fst (initialize_opt opt_name grad_op linear_op prox_op x_init synthesis_init
                    opt_kwargs metric_kwargs s) \<noteq> Inl (ValueError msg))) \<and>
   (\<forall>f. map_of OPTIMIZERS opt_name = Some (PyStr f) \<longrightarrow>
      get_grad_op fourier_op (Some f) lo verbose kwargs \<noteq> None)"
proof -
  have 1: "length OPTIMIZERS = 4 \<and> distinct (map fst OPTIMIZERS)"
    by (simp add: OPTIMIZERS_def)
  have 2: "map_of OPTIMIZERS (Some ''pogm'') = Some (PyStr ''synthesis'') \<and>
      map_of OPTIMIZERS (Some ''fista'') = Some (PyStr ''analysis'') \<and>
      map_of OPTIMIZERS (Some ''condat-vu'') = Some (PyStr ''analysis'') \<and>
      map_of OPTIMIZERS None = Some PyNone"
    by (simp add: OPTIMIZERS_def)
  have 3: "(\<exists>f. map_of OPTIMIZERS opt_name = Some (PyStr f)) \<longleftrightarrow>
      (\<forall>msg. fst (initialize_opt opt_name grad_op linear_op prox_op x_init synthesis_init
                    opt_kwargs metric_kwargs s) \<noteq> Inl (ValueError msg))"
    by (simp only: OPTIMIZERS_keys valid_no_ValueError)
  have 4: "\<forall>f. map_of OPTIMIZERS opt_name = Some (PyStr f) \<longrightarrow>
      get_grad_op fourier_op (Some f) lo verbose kwargs \<noteq> None"
    using OPTIMIZERS_formulation by blast
  from 1 2 3 4 show ?thesis by blast
qed

text \<open>Claim C6 at the name \<^verbatim>\<open>"pogm"\<close>, whose formulation \<^verbatim>\<open>"synthesis"\<close> builds an operator.\<close>

theorem OPTIMIZERS_table_witness:
  "map_of OPTIMIZERS (Some ''pogm'') = Some (PyStr ''synthesis'') \<and>
   (\<forall>msg. fst (initialize_opt (Some ''pogm'') ex_synthesis ex_linear (ProxOp 0) None False
                 (Some 1) (Some 2) ex_store) \<noteq> Inl (ValueError msg)) \<and>
   get_grad_op ex_fourier (Some ''synthesis'') (Some ex_linear) (PyBool False) [] \<noteq> None"
  using OPTIMIZERS_table [of "Some ''pogm''" ex_synthesis ex_linear "ProxOp 0" None False
      "Some 1" "Some 2" ex_store ex_fourier "Some ex_linear" "PyBool False" "[]"]
  by blast

section \<open>The initial values (claims C8 and C10)\<close>

lemma init_values_third_branch:
  "init_values g l x syn = init_values_without_third_branch g l x syn"
  by (simp add: init_values_def init_values_without_third_branch_def)

text \<open>
  Claim C8. The guard of the third branch of the conditional of lines 63 to 68 repeats the
  guard of the first branch, which is tested first, so the branch \<^verbatim>\<open>alpha_init = x_init\<close> is
  never taken: the two local variables are bound as they are without it, and
  \<^verbatim>\<open>initialize_opt\<close> returns the same result and leaves the same store as the function with
  that branch removed, on every input.
\<close>

theorem third_branch_unreachable:
  "init_values grad_op linear_op x synthesis_init =
     init_values_without_third_branch grad_op linear_op x synthesis_init \<and>
   initialize_opt opt_name grad_op linear_op prox_op x_init synthesis_init
       opt_kwargs metric_kwargs s =
     initialize_opt_without_third_branch opt_name grad_op linear_op prox_op x_init
       synthesis_init opt_kwargs metric_kwargs s"
  by (simp only: initialize_opt_def initialize_opt_without_third_branch_def
      init_values_third_branch)

text \<open>Claim C8 at a synthesis operator, where the first branch is taken.\<close>

theorem third_branch_unreachable_witness:
  "init_values ex_synthesis ex_linear ex_zeros False = (Some (flatten ex_zeros), ex_zeros) \<and>
   init_values_without_third_branch ex_synthesis ex_linear ex_zeros False =
     (Some (flatten ex_zeros), ex_zeros) \<and>
   initialize_opt (Some ''pogm'') ex_synthesis ex_linear (ProxOp 0) None False
       (Some 1) (Some 2) ex_store =
     initialize_opt_without_third_branch (Some ''pogm'') ex_synthesis ex_linear (ProxOp 0) None
       False (Some 1) (Some 2) ex_store"
proof -
  have "init_values_without_third_branch ex_synthesis ex_linear ex_zeros False =
      (Some (flatten ex_zeros), ex_zeros)"
    by (simp add: init_values_without_third_branch_def hasattr_linear_op_def ex_synthesis_def
        ex_linear_def)
  then show ?thesis
    using third_branch_unreachable [of ex_synthesis ex_linear ex_zeros False "Some ''pogm''"
        "ProxOp 0" None "Some 1" "Some 2" ex_store]
    by simp
qed

lemma prod_list_squeeze: "prod_list (filter (\<lambda>d. d \<noteq> 1) xs) = prod_list (xs :: nat list)"
  by (induction xs) simp_all

lemma default_x_init_None:
  "default_x_init g None =
     \<lparr>arr_shape = filter (\<lambda>d. d \<noteq> 1) (n_coils (grad_fourier_op g) # shape (grad_fourier_op g)),
      arr_dtype = Complex64,
      arr_data =
        replicate
          (prod_list
             (filter (\<lambda>d. d \<noteq> 1) (n_coils (grad_fourier_op g) # shape (grad_fourier_op g))))
          0\<rparr>"
  unfolding prod_list_squeeze
  by (simp add: default_x_init_def np_squeeze_def np_zeros_def)

lemma initialize_opt_Inr_arrays:
  assumes "fst (initialize_opt n g l p x syn ok mk s) = Inr (Instance c kws)"
  shows "(n = Some ''pogm'' \<longrightarrow>
            map_of kws ''u'' = Some (Arr (op (the (grad_linear_op g)) (default_x_init g x))) \<and>
            map_of kws ''x'' = Some (Arr (op (the (grad_linear_op g)) (default_x_init g x))) \<and>
            map_of kws ''y'' = Some (Arr (op (the (grad_linear_op g)) (default_x_init g x))) \<and>
            map_of kws ''z'' = Some (Arr (op (the (grad_linear_op g)) (default_x_init g x)))) \<and>
         (n = Some ''fista'' \<longrightarrow>
            map_of kws ''x'' =
              Some (Arr (if syn \<and> \<not> hasattr_linear_op g then adj_op l (default_x_init g x)
                         else default_x_init g x))) \<and>
         (n = Some ''condat-vu'' \<longrightarrow>
            map_of kws ''x'' =
              Some (Arr (if syn \<and> \<not> hasattr_linear_op g then adj_op l (default_x_init g x)
                         else default_x_init g x)) \<and>
            map_of kws ''y'' =
              Some (Arr (op l (if syn \<and> \<not> hasattr_linear_op g then adj_op l (default_x_init g x)
                               else default_x_init g x))))"
proof -
  let ?X = "default_x_init g x"
  let ?xi = "if syn \<and> \<not> hasattr_linear_op g then adj_op l ?X else ?X"
  let ?al = "if \<not> syn \<and> hasattr_linear_op g then Some (op (the (grad_linear_op g)) ?X) else None"
  have iv: "init_values g l ?X syn = (?al, ?xi)"
    by (simp add: init_values_def)
  from assms have e: "fst (dispatch n g l p (?al, ?xi) ok mk s) = Inr (Instance c kws)"
    by (simp only: initialize_opt_def iv)
  have 1: "map_of kws ''u'' = Some (Arr (op (the (grad_linear_op g)) ?X)) \<and>
      map_of kws ''x'' = Some (Arr (op (the (grad_linear_op g)) ?X)) \<and>
      map_of kws ''y'' = Some (Arr (op (the (grad_linear_op g)) ?X)) \<and>
      map_of kws ''z'' = Some (Arr (op (the (grad_linear_op g)) ?X))"
    if n: "n = Some ''pogm''"
  proof (cases "\<not> syn \<and> hasattr_linear_op g")
    case False
    with e n show ?thesis
      by (simp add: dispatch_pogm_unbound)
  next
    case True
    then have al: "?al = Some (op (the (grad_linear_op g)) ?X)"
      by simp
    from py_call_Inr_kwarg [OF e [unfolded n al dispatch_pogm fst_conv]]
    obtain kws' where "kws =
        [(''u'', Arr (op (the (grad_linear_op g)) ?X)), (''x'', Arr (op (the (grad_linear_op g)) ?X)),
         (''y'', Arr (op (the (grad_linear_op g)) ?X)), (''z'', Arr (op (the (grad_linear_op g)) ?X)),
         (''grad'', Grad g), (''prox'', Prox p), (''linear'', Lin l),
         (''beta_param'', Val (inv_spec_rad g)),
         (''sigma_bar'', Val (lookup_default (dict_arg s ok) (Some ''sigma_bar'') (PyFloat (96 / 100)))),
         (''auto_iterate'', Val (lookup_default (dict_arg s ok) (Some ''auto_iterate'') (PyBool False)))]
        @ kws'"
      by blast
    then show ?thesis
      by simp
  qed
  have 2: "map_of kws ''x'' = Some (Arr ?xi)" if n: "n = Some ''fista''"
  proof -
    from py_call_Inr_kwarg [OF e [unfolded n dispatch_fista fst_conv]]
    obtain kws' where "kws =
        [(''x'', Arr ?xi), (''grad'', Grad g), (''prox'', Prox p), (''linear'', Lin l),
         (''beta_param'', Val (inv_spec_rad g)),
         (''lambda_param'', Val (lookup_default (dict_arg s ok) (Some ''lambda_param'') (PyFloat 1))),
         (''auto_iterate'', Val (lookup_default (dict_arg s ok) (Some ''auto_iterate'') (PyBool False)))]
        @ kws'"
      by blast
    then show ?thesis
      by simp
  qed
  have 3: "map_of kws ''x'' = Some (Arr ?xi) \<and> map_of kws ''y'' = Some (Arr (op l ?xi))"
    if n: "n = Some ''condat-vu''"
  proof -
    from py_call_Inr_kwarg [OF e [unfolded n dispatch_condat fst_conv]]
    obtain kws' where "kws =
        [(''x'', Arr ?xi), (''y'', Arr (op l ?xi)), (''grad'', Grad g), (''prox'', Identity),
         (''prox_dual'', Prox p), (''linear'', Lin l)] @ kws'"
      by blast
    then show ?thesis
      by simp
  qed
  from 1 2 3 show ?thesis
    by blast
qed

text \<open>
  Claim C10. Let \<open>z\<close> be the array of dtype \<^verbatim>\<open>complex64\<close> whose shape is \<^verbatim>\<open>(n_coils, *shape)\<close>
  of the Fourier operator of \<^verbatim>\<open>grad_op\<close> without its axes of length one, and whose entries
  (as many as the product of that shape) are all zero. In every call with \<^verbatim>\<open>x_init=None\<close>
  it is \<open>z\<close> that is used in place of \<^verbatim>\<open>x_init\<close>: the call behaves as the call with
  \<^verbatim>\<open>x_init=z\<close>, and the arrays given to the constructor are made of \<open>z\<close>. \<^verbatim>\<open>"fista"\<close> and
  \<^verbatim>\<open>"condat-vu"\<close> pass \<open>z\<close> as \<^verbatim>\<open>x\<close> (or \<^verbatim>\<open>linear_op.adj_op(z)\<close> when \<^verbatim>\<open>synthesis_init\<close> is true
  and \<^verbatim>\<open>grad_op\<close> has no \<^verbatim>\<open>linear_op\<close>), \<^verbatim>\<open>"condat-vu"\<close> passes \<^verbatim>\<open>linear_op.op\<close> of it as \<^verbatim>\<open>y\<close>, and
  \<^verbatim>\<open>"pogm"\<close> passes \<^verbatim>\<open>grad_op.linear_op.op(z)\<close> as \<^verbatim>\<open>u\<close>, \<^verbatim>\<open>x\<close>, \<^verbatim>\<open>y\<close> and \<^verbatim>\<open>z\<close>.
\<close>

theorem x_init_default_zeros:
  assumes "z =
     \<lparr>arr_shape =
        filter (\<lambda>d. d \<noteq> 1)
          (n_coils (grad_fourier_op grad_op) # shape (grad_fourier_op grad_op)),
      arr_dtype = Complex64,
      arr_data =
        replicate
          (prod_list
             (filter (\<lambda>d. d \<noteq> 1)
                (n_coils (grad_fourier_op grad_op) # shape (grad_fourier_op grad_op))))
          0\<rparr>"
  shows "default_x_init grad_op None = z \<and>
   initialize_opt opt_name grad_op linear_op prox_op None synthesis_init
       opt_kwargs metric_kwargs s =
     initialize_opt opt_name grad_op linear_op prox_op (Some z)
       synthesis_init opt_kwargs metric_kwargs s \<and>
   (\<forall>c kws.
      fst (initialize_opt opt_name grad_op linear_op prox_op None synthesis_init
             opt_kwargs metric_kwargs s) = Inr (Instance c kws) \<longrightarrow>
      (opt_name = Some ''pogm'' \<longrightarrow>
         map_of kws ''u'' = Some (Arr (op (the (grad_linear_op grad_op)) z)) \<and>
         map_of kws ''x'' = Some (Arr (op (the (grad_linear_op grad_op)) z)) \<and>
         map_of kws ''y'' = Some (Arr (op (the (grad_linear_op grad_op)) z)) \<and>
         map_of kws ''z'' = Some (Arr (op (the (grad_linear_op grad_op)) z))) \<and>
      (opt_name = Some ''fista'' \<longrightarrow>
         map_of kws ''x'' =
           Some (Arr (if synthesis_init \<and> \<not> hasattr_linear_op grad_op
                      then adj_op linear_op z else z))) \<and>
      (opt_name = Some ''condat-vu'' \<longrightarrow>
         map_of kws ''x'' =
           Some (Arr (if synthesis_init \<and> \<not> hasattr_linear_op grad_op
                      then adj_op linear_op z else z)) \<and>
         map_of kws ''y'' =
           Some (Arr (op linear_op (if synthesis_init \<and> \<not> hasattr_linear_op grad_op
                                    then adj_op linear_op z else z)))))"
proof -
  have d: "default_x_init grad_op None = z"
    unfolding assms by (rule default_x_init_None)
  then have e: "initialize_opt opt_name grad_op linear_op prox_op None synthesis_init
       opt_kwargs metric_kwargs s =
     initialize_opt opt_name grad_op linear_op prox_op (Some z)
       synthesis_init opt_kwargs metric_kwargs s"
    by (simp add: initialize_opt_def default_x_init_def)
  from d e initialize_opt_Inr_arrays [of opt_name grad_op linear_op prox_op None synthesis_init
      opt_kwargs metric_kwargs s, unfolded d]
  show ?thesis
    by blast
qed

text \<open>
  Claim C10 at a Fourier operator with one coil and a two by two image: the shape
  \<^verbatim>\<open>(1, 2, 2)\<close> is squeezed to \<^verbatim>\<open>(2, 2)\<close>, with four zero entries; a \<^verbatim>\<open>"fista"\<close> call passes that
  array as \<^verbatim>\<open>x\<close>, and a \<^verbatim>\<open>"pogm"\<close> call passes its image under the linear operator.
\<close>

theorem x_init_default_zeros_witness:
  "ex_zeros =
     \<lparr>arr_shape =
        filter (\<lambda>d. d \<noteq> 1)
          (n_coils (grad_fourier_op ex_analysis) # shape (grad_fourier_op ex_analysis)),
      arr_dtype = Complex64,
      arr_data =
        replicate
          (prod_list
             (filter (\<lambda>d. d \<noteq> 1)
                (n_coils (grad_fourier_op ex_analysis) # shape (grad_fourier_op ex_analysis))))
          0\<rparr> \<and>
   default_x_init ex_analysis None = ex_zeros \<and>
   fst (initialize_opt (Some ''fista'') ex_analysis ex_linear (ProxOp 0) None False
          (Some 1) (Some 2) ex_store) = Inr (Instance ForwardBackward ex_fista_kws) \<and>
   map_of ex_fista_kws ''x'' = Some (Arr ex_zeros) \<and>
   fst (initialize_opt (Some ''pogm'') ex_synthesis ex_linear (ProxOp 0) None False
          (Some 1) (Some 2) ex_store) = Inr (Instance POGM ex_pogm_kws) \<and>
   map_of ex_pogm_kws ''u'' = Some (Arr (flatten ex_zeros)) \<and>
   initialize_opt (Some ''fista'') ex_analysis ex_linear (ProxOp 0) None False
       (Some 1) (Some 2) ex_store =
     initialize_opt (Some ''fista'') ex_analysis ex_linear (ProxOp 0) (Some ex_zeros) False
       (Some 1) (Some 2) ex_store"
proof -
  have za: "ex_zeros =
     \<lparr>arr_shape =
        filter (\<lambda>d. d \<noteq> 1)
          (n_coils (grad_fourier_op ex_analysis) # shape (grad_fourier_op ex_analysis)),
      arr_dtype = Complex64,
      arr_data =
        replicate
          (prod_list
             (filter (\<lambda>d. d \<noteq> 1)
                (n_coils (grad_fourier_op ex_analysis) # shape (grad_fourier_op ex_analysis))))
          0\<rparr>"
    by (simp add: ex_analysis_def ex_fourier_def ex_zeros_def eval_nat_numeral)
  have zs: "ex_zeros =
     \<lparr>arr_shape =
        filter (\<lambda>d. d \<noteq> 1)
          (n_coils (grad_fourier_op ex_synthesis) # shape (grad_fourier_op ex_synthesis)),
      arr_dtype = Complex64,
      arr_data =
        replicate
          (prod_list
             (filter (\<lambda>d. d \<noteq> 1)
                (n_coils (grad_fourier_op ex_synthesis) # shape (grad_fourier_op ex_synthesis))))
          0\<rparr>"
    by (simp add: ex_synthesis_def ex_fourier_def ex_zeros_def eval_nat_numeral)
  note ta = x_init_default_zeros [OF za, of "Some ''fista''" ex_linear "ProxOp 0" False
      "Some 1" "Some 2" ex_store]
  note ts = x_init_default_zeros [OF zs, of "Some ''pogm''" ex_linear "ProxOp 0" False
      "Some 1" "Some 2" ex_store]
  note fa = ta [THEN conjunct2, THEN conjunct2, THEN spec, THEN spec, THEN mp, OF ex_fista_run]
  note fs = ts [THEN conjunct2, THEN conjunct2, THEN spec, THEN spec, THEN mp, OF ex_pogm_run]
  from fa have 1: "map_of ex_fista_kws ''x'' = Some (Arr ex_zeros)"
    by (simp add: hasattr_linear_op_def ex_analysis_def)
  from fs have 2: "map_of ex_pogm_kws ''u'' = Some (Arr (flatten ex_zeros))"
    by (simp add: ex_synthesis_def ex_linear_def)
  from za ta ex_fista_run ex_pogm_run 1 2 show ?thesis
    by blast
qed

section \<open>State and effects (claims C7 and C9)\<close>

lemma fst_dispatch_cong:
  assumes "dict_arg s ok = dict_arg t ok" and "dict_arg s mk = dict_arg t mk"
  shows "fst (dispatch n g l p v ok mk s) = fst (dispatch n g l p v ok mk t)"
proof -
  obtain al x where v: "v = (al, x)"
    by (cases v) auto
  have m: "dict_arg (popped_store n s ok) mk = dict_arg (popped_store n t ok) mk"
    by (simp only: dict_arg_popped_store assms)
  consider "n = Some ''pogm''" | "n = Some ''fista''" | "n = Some ''condat-vu''"
    | "n \<notin> valid_names"
    by (auto simp: valid_names_def)
  then show ?thesis
  proof cases
    case 1
    then show ?thesis
      using m by (cases al) (simp_all add: v dispatch_pogm dispatch_pogm_unbound assms(1))
  next
    case 2
    then show ?thesis
      using m by (simp add: v dispatch_fista assms(1))
  next
    case 3
    then show ?thesis
      using m by (simp add: v dispatch_condat assms(1))
  next
    case 4
    then show ?thesis by (simp add: dispatch_invalid)
  qed
qed

lemma popped_store_frame: "Some b \<noteq> ok \<Longrightarrow> popped_store n s ok b = s b"
  by (auto simp: popped_store_def split: option.splits)

lemma remaining_OPTIMIZERS: "remaining n OPTIMIZERS = OPTIMIZERS"
  by (simp add: remaining_def popped_keys_def OPTIMIZERS_def)

lemma popped_store_OPTIMIZERS:
  "s OPTIMIZERS_addr = OPTIMIZERS \<Longrightarrow> popped_store n s ok OPTIMIZERS_addr = OPTIMIZERS"
  by (auto simp: popped_store_def remaining_OPTIMIZERS split: option.splits)

lemma initialize_opt_frame:
  "Some b \<noteq> ok \<Longrightarrow> snd (initialize_opt n g l p x syn ok mk s) b = s b"
  by (simp add: initialize_opt_store popped_store_frame)

lemma initialize_opt_OPTIMIZERS:
  "s OPTIMIZERS_addr = OPTIMIZERS \<Longrightarrow>
   snd (initialize_opt n g l p x syn ok mk s) OPTIMIZERS_addr = OPTIMIZERS"
  by (simp add: initialize_opt_store popped_store_OPTIMIZERS)

lemma initialize_opt_two_runs:
  assumes "dict_arg s ok = dict_arg t ok" and "dict_arg s mk = dict_arg t mk"
  shows "fst (initialize_opt n g l p x syn ok mk s) = fst (initialize_opt n g l p x syn ok mk t)"
    and "dict_arg (snd (initialize_opt n g l p x syn ok mk s)) ok =
         dict_arg (snd (initialize_opt n g l p x syn ok mk t)) ok"
    and "dict_arg (snd (initialize_opt n g l p x syn ok mk s)) mk =
         dict_arg (snd (initialize_opt n g l p x syn ok mk t)) mk"
proof -
  show "fst (initialize_opt n g l p x syn ok mk s) = fst (initialize_opt n g l p x syn ok mk t)"
    unfolding initialize_opt_def using assms by (rule fst_dispatch_cong)
  have "dict_arg (popped_store n s ok) r = dict_arg (popped_store n t ok) r"
    if "dict_arg s r = dict_arg t r" for r
    using that by (simp only: dict_arg_popped_store assms(1))
  then show "dict_arg (snd (initialize_opt n g l p x syn ok mk s)) ok =
         dict_arg (snd (initialize_opt n g l p x syn ok mk t)) ok"
    and "dict_arg (snd (initialize_opt n g l p x syn ok mk s)) mk =
         dict_arg (snd (initialize_opt n g l p x syn ok mk t)) mk"
    using assms by (simp_all add: initialize_opt_store)
qed

lemma remaining_idem: "remaining n (remaining n d) = remaining n d"
  by (simp add: remaining_def)

lemma popped_store_idem: "popped_store n (popped_store n s ok) ok = popped_store n s ok"
  by (cases ok) (simp_all add: popped_store_def remaining_idem)

lemma initialize_opt_store_idem:
  "snd (initialize_opt n g l p x syn ok mk (snd (initialize_opt n g l p x syn ok mk s))) =
   snd (initialize_opt n g l p x syn ok mk s)"
  by (simp add: initialize_opt_store popped_store_idem)

lemma remaining_absent:
  "\<forall>k\<in>set (popped_keys n). k \<notin> fst ` set d \<Longrightarrow> remaining n d = d"
  unfolding remaining_def by (rule filter_True) force

lemma initialize_opt_store_absent:
  assumes "\<forall>k\<in>set (popped_keys n). k \<notin> fst ` set (dict_arg s ok)"
  shows "snd (initialize_opt n g l p x syn ok mk s) = s"
proof -
  have "popped_store n s ok = s"
  proof (cases ok)
    case None
    then show ?thesis by (simp add: popped_store_def)
  next
    case (Some a)
    with assms have "remaining n (s a) = s a"
      by (intro remaining_absent) (simp add: dict_arg_def)
    with Some show ?thesis by (simp add: popped_store_def)
  qed
  then show ?thesis
    by (simp add: initialize_opt_store)
qed

lemma get_grad_op_outcome_call:
  "get_grad_op_outcome lib fo gf lo v kw = Inr (Some g) \<Longrightarrow>
   \<exists>call. get_grad_op fo gf lo v kw = Some call \<and> lib call = Inr g"
  by (auto simp: get_grad_op_outcome_def split: option.splits sum.splits)

text \<open>
  Claim C7, as amended. The module keeps no state of its own. Two runs of
  \<^verbatim>\<open>initialize_opt\<close> with the same arguments, in two stores that hold the same contents for
  the two keyword dictionaries and differ anywhere else, make the same selection with the
  same values (the same error, or the same constructor call with the same keyword
  arguments) and leave the same contents in the two dictionaries. A run changes no object
  of the store other than \<^verbatim>\<open>opt_kwargs\<close>, and the dictionary bound to \<^verbatim>\<open>OPTIMIZERS\<close> still holds
  the table after any call, whatever the arguments. Two successive calls that pass the
  same dictionary object are not two such runs, since the first call pops keys from it;
  a call leaves the store as it is when \<^verbatim>\<open>opt_kwargs\<close> holds none of the keys it pops, and
  a second call pops nothing more. \<^verbatim>\<open>get_grad_op\<close> reads and writes no object of the store:
  what it returns is what the constructor returns for the one call its arguments fix.
\<close>

theorem no_internal_state:
  assumes "dict_arg s opt_kwargs = dict_arg t opt_kwargs"
    and "dict_arg s metric_kwargs = dict_arg t metric_kwargs"
  shows "fst (initialize_opt opt_name grad_op linear_op prox_op x_init synthesis_init
          opt_kwargs metric_kwargs s) =
     fst (initialize_opt opt_name grad_op linear_op prox_op x_init synthesis_init
            opt_kwargs metric_kwargs t) \<and>
   dict_arg (snd (initialize_opt opt_name grad_op linear_op prox_op x_init synthesis_init
                    opt_kwargs metric_kwargs s)) opt_kwargs =
     dict_arg (snd (initialize_opt opt_name grad_op linear_op prox_op x_init synthesis_init
                      opt_kwargs metric_kwargs t)) opt_kwargs \<and>
   dict_arg (snd (initialize_opt opt_name grad_op linear_op prox_op x_init synthesis_init
                    opt_kwargs metric_kwargs s)) metric_kwargs =
     dict_arg (snd (initialize_opt opt_name grad_op linear_op prox_op x_init synthesis_init
                      opt_kwargs metric_kwargs t)) metric_kwargs \<and>
   (\<forall>b. Some b \<noteq> opt_kwargs \<longrightarrow>
      snd (initialize_opt opt_name grad_op linear_op prox_op x_init synthesis_init
             opt_kwargs metric_kwargs s) b = s b) \<and>
   (s OPTIMIZERS_addr = OPTIMIZERS \<longrightarrow>
      snd (initialize_opt opt_name grad_op linear_op prox_op x_init synthesis_init
             opt_kwargs metric_kwargs s) OPTIMIZERS_addr = OPTIMIZERS) \<and>
   ((\<forall>k\<in>set (popped_keys opt_name). k \<notin> fst ` set (dict_arg s opt_kwargs)) \<longrightarrow>
      snd (initialize_opt opt_name grad_op linear_op prox_op x_init synthesis_init
             opt_kwargs metric_kwargs s) = s) \<and>
   snd (initialize_opt opt_name grad_op linear_op prox_op x_init synthesis_init
          opt_kwargs metric_kwargs
          (snd (initialize_opt opt_name grad_op linear_op prox_op x_init synthesis_init
                  opt_kwargs metric_kwargs s))) =
     snd (initialize_opt opt_name grad_op linear_op prox_op x_init synthesis_init
            opt_kwargs metric_kwargs s) \<and>
   (\<forall>g. get_grad_op_outcome lib fourier_op grad_formulation lo verbose kwargs = Inr (Some g) \<longrightarrow>
      (\<exists>call. get_grad_op fourier_op grad_formulation lo verbose kwargs = Some call \<and>
              lib call = Inr g))"
proof -
  note r = initialize_opt_two_runs [OF assms, of opt_name grad_op linear_op prox_op x_init
      synthesis_init]
  have f: "\<forall>b. Some b \<noteq> opt_kwargs \<longrightarrow>
      snd (initialize_opt opt_name grad_op linear_op prox_op x_init synthesis_init
             opt_kwargs metric_kwargs s) b = s b"
    by (simp add: initialize_opt_frame)
  have o: "s OPTIMIZERS_addr = OPTIMIZERS \<longrightarrow>
      snd (initialize_opt opt_name grad_op linear_op prox_op x_init synthesis_init
             opt_kwargs metric_kwargs s) OPTIMIZERS_addr = OPTIMIZERS"
    by (simp add: initialize_opt_OPTIMIZERS)
  have a: "(\<forall>k\<in>set (popped_keys opt_name). k \<notin> fst ` set (dict_arg s opt_kwargs)) \<longrightarrow>
      snd (initialize_opt opt_name grad_op linear_op prox_op x_init synthesis_init
             opt_kwargs metric_kwargs s) = s"
    by (intro impI initialize_opt_store_absent)
  have g: "\<forall>g. get_grad_op_outcome lib fourier_op grad_formulation lo verbose kwargs =
        Inr (Some g) \<longrightarrow>
      (\<exists>call. get_grad_op fourier_op grad_formulation lo verbose kwargs = Some call \<and>
              lib call = Inr g)"
    by (intro allI impI get_grad_op_outcome_call)
  from r f o a g initialize_opt_store_idem [of opt_name grad_op linear_op prox_op x_init
      synthesis_init opt_kwargs metric_kwargs s]
  show ?thesis
    by (intro conjI) assumption+
qed

text \<open>
  The amended claim C7 at a \<^verbatim>\<open>"pogm"\<close> call run in a store that holds the module's table
  and in a store that does not, and at \<^verbatim>\<open>get_grad_op\<close> with the example library.
\<close>

theorem no_internal_state_witness:
  "dict_arg ex_module_store (Some 1) = dict_arg ex_store (Some 1) \<and>
   dict_arg ex_module_store (Some 2) = dict_arg ex_store (Some 2) \<and>
   ex_module_store OPTIMIZERS_addr = OPTIMIZERS \<and>
   ex_store OPTIMIZERS_addr \<noteq> OPTIMIZERS \<and>
   fst (initialize_opt (Some ''pogm'') ex_synthesis ex_linear (ProxOp 0) None False
          (Some 1) (Some 2) ex_module_store) =
     fst (initialize_opt (Some ''pogm'') ex_synthesis ex_linear (ProxOp 0) None False
            (Some 1) (Some 2) ex_store) \<and>
   snd (initialize_opt (Some ''pogm'') ex_synthesis ex_linear (ProxOp 0) None False
          (Some 1) (Some 2) ex_module_store) 2 = ex_module_store 2 \<and>
   snd (initialize_opt (Some ''pogm'') ex_synthesis ex_linear (ProxOp 0) None False
          (Some 1) (Some 2) ex_module_store) OPTIMIZERS_addr = OPTIMIZERS \<and>
   get_grad_op_outcome ex_grad_library ex_fourier (Some ''analysis'') None (PyBool False) [] =
     Inr (Some ex_analysis) \<and>
   get_grad_op ex_fourier (Some ''analysis'') None (PyBool False) [] =
     Some (GradAnalysis ex_fourier (PyBool False) []) \<and>
   ex_grad_library (GradAnalysis ex_fourier (PyBool False) []) = Inr ex_analysis"
proof -
  have a: "dict_arg ex_module_store (Some 1) = dict_arg ex_store (Some 1)"
    "dict_arg ex_module_store (Some 2) = dict_arg ex_store (Some 2)"
    by (simp_all add: dict_arg_def ex_module_store_def OPTIMIZERS_addr_def)
  have b: "ex_module_store OPTIMIZERS_addr = OPTIMIZERS"
    by (simp add: ex_module_store_def)
  have c: "ex_store OPTIMIZERS_addr \<noteq> OPTIMIZERS"
    by (simp add: ex_defs OPTIMIZERS_addr_def OPTIMIZERS_def)
  have d: "get_grad_op_outcome ex_grad_library ex_fourier (Some ''analysis'') None
      (PyBool False) [] = Inr (Some ex_analysis)"
    by (simp add: get_grad_op_outcome_def get_grad_op_def ex_analysis_def)
  note t = no_internal_state [OF a, of "Some ''pogm''" ex_synthesis ex_linear "ProxOp 0" None
      False ex_grad_library ex_fourier "Some ''analysis''" None "PyBool False" "[]"]
  note t1 = t [THEN conjunct1]
  note t4 = t [THEN conjunct2, THEN conjunct2, THEN conjunct2, THEN conjunct1, THEN spec,
      of 2]
  note t5 = t [THEN conjunct2, THEN conjunct2, THEN conjunct2, THEN conjunct2, THEN conjunct1,
      THEN mp, OF b]
  note t8 = t [THEN conjunct2, THEN conjunct2, THEN conjunct2, THEN conjunct2, THEN conjunct2,
      THEN conjunct2, THEN conjunct2, THEN spec, THEN mp, OF d]
  from t4 have 4: "snd (initialize_opt (Some ''pogm'') ex_synthesis ex_linear (ProxOp 0) None
      False (Some 1) (Some 2) ex_module_store) 2 = ex_module_store 2"
    by simp
  from t8 have 8: "get_grad_op ex_fourier (Some ''analysis'') None (PyBool False) [] =
      Some (GradAnalysis ex_fourier (PyBool False) []) \<and>
    ex_grad_library (GradAnalysis ex_fourier (PyBool False) []) = Inr ex_analysis"
    by (auto simp: get_grad_op_def)
  from a b c d t1 4 t5 8 show ?thesis
    by blast
qed

text \<open>
  Claim C7 as stated fails for two successive calls with the same arguments: the first
  call, with \<^verbatim>\<open>opt_kwargs = {"sigma_bar": 0.75}\<close>, calls \<^verbatim>\<open>POGM\<close> with \<^verbatim>\<open>sigma_bar=0.75\<close> and
  pops the key; the second call, with the same dictionary object, calls \<^verbatim>\<open>POGM\<close> with the
  default \<^verbatim>\<open>sigma_bar=0.96\<close>.
\<close>

theorem successive_calls_counterexample:
  "fst (initialize_opt (Some ''pogm'') ex_synthesis ex_linear (ProxOp 0) (Some ex_zeros) False
          (Some 5) None ex_store) =
     Inr (Instance POGM
            [(''u'', Arr (flatten ex_zeros)), (''x'', Arr (flatten ex_zeros)),
             (''y'', Arr (flatten ex_zeros)), (''z'', Arr (flatten ex_zeros)),
             (''grad'', Grad ex_synthesis), (''prox'', Prox (ProxOp 0)),
             (''linear'', Lin ex_linear), (''beta_param'', Val (PyFloat (1 / 2))),
             (''sigma_bar'', Val (PyFloat (3 / 4))), (''auto_iterate'', Val (PyBool False))]) \<and>
   fst (initialize_opt (Some ''pogm'') ex_synthesis ex_linear (ProxOp 0) (Some ex_zeros) False
          (Some 5) None
          (snd (initialize_opt (Some ''pogm'') ex_synthesis ex_linear (ProxOp 0) (Some ex_zeros)
                  False (Some 5) None ex_store))) =
     Inr (Instance POGM
            [(''u'', Arr (flatten ex_zeros)), (''x'', Arr (flatten ex_zeros)),
             (''y'', Arr (flatten ex_zeros)), (''z'', Arr (flatten ex_zeros)),
             (''grad'', Grad ex_synthesis), (''prox'', Prox (ProxOp 0)),
             (''linear'', Lin ex_linear), (''beta_param'', Val (PyFloat (1 / 2))),
             (''sigma_bar'', Val (PyFloat (96 / 100))), (''auto_iterate'', Val (PyBool False))])"
proof -
  have 2: "ex_store 5 = [(Some ''sigma_bar'', PyFloat (3 / 4))]"
    by (simp add: ex_defs)
  have 3: "initialize_opt (Some ''pogm'') ex_synthesis ex_linear (ProxOp 0) (Some ex_zeros) False
          (Some 5) None ex_store =
     (Inr (Instance POGM
            [(''u'', Arr (flatten ex_zeros)), (''x'', Arr (flatten ex_zeros)),
             (''y'', Arr (flatten ex_zeros)), (''z'', Arr (flatten ex_zeros)),
             (''grad'', Grad ex_synthesis), (''prox'', Prox (ProxOp 0)),
             (''linear'', Lin ex_linear), (''beta_param'', Val (PyFloat (1 / 2))),
             (''sigma_bar'', Val (PyFloat (3 / 4))), (''auto_iterate'', Val (PyBool False))]),
      ex_store(5 := []))"
    by (simp add: model_defs Let_def 2 hasattr_linear_op_def ex_synthesis_def ex_linear_def)
  have 4: "fst (initialize_opt (Some ''pogm'') ex_synthesis ex_linear (ProxOp 0) (Some ex_zeros)
          False (Some 5) None (ex_store(5 := []))) =
     Inr (Instance POGM
            [(''u'', Arr (flatten ex_zeros)), (''x'', Arr (flatten ex_zeros)),
             (''y'', Arr (flatten ex_zeros)), (''z'', Arr (flatten ex_zeros)),
             (''grad'', Grad ex_synthesis), (''prox'', Prox (ProxOp 0)),
             (''linear'', Lin ex_linear), (''beta_param'', Val (PyFloat (1 / 2))),
             (''sigma_bar'', Val (PyFloat (96 / 100))), (''auto_iterate'', Val (PyBool False))])"
    by (simp add: model_defs Let_def hasattr_linear_op_def ex_synthesis_def ex_linear_def)
  show ?thesis
    by (simp only: 3 4 fst_conv snd_conv)
qed

lemma remaining_pogm_filter:
  "remaining (Some ''pogm'') d =
     filter (\<lambda>kv. fst kv \<noteq> Some ''sigma_bar'' \<and> fst kv \<noteq> Some ''auto_iterate'') d"
  by (simp add: remaining_def popped_keys_def)

lemma remaining_fista_filter:
  "remaining (Some ''fista'') d =
     filter (\<lambda>kv. fst kv \<noteq> Some ''lambda_param'' \<and> fst kv \<noteq> Some ''auto_iterate'') d"
  by (simp add: remaining_def popped_keys_def)

text \<open>
  Claim C9, as amended. \<^verbatim>\<open>initialize_opt\<close> mutates the caller's \<^verbatim>\<open>opt_kwargs\<close>: with
  \<^verbatim>\<open>"pogm"\<close>, when \<^verbatim>\<open>synthesis_init\<close> is false and \<^verbatim>\<open>grad_op\<close> has a \<^verbatim>\<open>linear_op\<close> attribute,
  the dictionary loses the keys \<^verbatim>\<open>sigma_bar\<close> and \<^verbatim>\<open>auto_iterate\<close> and keeps every other pair;
  with \<^verbatim>\<open>"fista"\<close> it loses \<^verbatim>\<open>lambda_param\<close> and \<^verbatim>\<open>auto_iterate\<close> and keeps every other pair;
  with any other name the store is unchanged. No call changes a dictionary that is not
  the object passed as \<^verbatim>\<open>opt_kwargs\<close>; in particular \<^verbatim>\<open>metric_kwargs\<close> is never changed
  unless it is that very object.
\<close>

theorem opt_kwargs_popped:
  "(opt_name = Some ''pogm'' \<and> \<not> synthesis_init \<and> hasattr_linear_op grad_op \<longrightarrow>
      snd (initialize_opt opt_name grad_op linear_op prox_op x_init synthesis_init
             (Some a) metric_kwargs s) a =
        filter (\<lambda>kv. fst kv \<noteq> Some ''sigma_bar'' \<and> fst kv \<noteq> Some ''auto_iterate'') (s a)) \<and>
   (opt_name = Some ''fista'' \<longrightarrow>
      snd (initialize_opt opt_name grad_op linear_op prox_op x_init synthesis_init
             (Some a) metric_kwargs s) a =
        filter (\<lambda>kv. fst kv \<noteq> Some ''lambda_param'' \<and> fst kv \<noteq> Some ''auto_iterate'') (s a)) \<and>
   (opt_name \<noteq> Some ''pogm'' \<and> opt_name \<noteq> Some ''fista'' \<longrightarrow>
      snd (initialize_opt opt_name grad_op linear_op prox_op x_init synthesis_init
             opt_kwargs metric_kwargs s) = s) \<and>
   (\<forall>b. Some b \<noteq> opt_kwargs \<longrightarrow>
      snd (initialize_opt opt_name grad_op linear_op prox_op x_init synthesis_init
             opt_kwargs metric_kwargs s) b = s b)"
proof (intro conjI impI allI)
  assume "opt_name = Some ''pogm'' \<and> \<not> synthesis_init \<and> hasattr_linear_op grad_op"
  then show "snd (initialize_opt opt_name grad_op linear_op prox_op x_init synthesis_init
             (Some a) metric_kwargs s) a =
        filter (\<lambda>kv. fst kv \<noteq> Some ''sigma_bar'' \<and> fst kv \<noteq> Some ''auto_iterate'') (s a)"
    by (simp add: initialize_opt_store init_values_bound popped_store_def
        remaining_pogm_filter)
next
  assume "opt_name = Some ''fista''"
  then show "snd (initialize_opt opt_name grad_op linear_op prox_op x_init synthesis_init
             (Some a) metric_kwargs s) a =
        filter (\<lambda>kv. fst kv \<noteq> Some ''lambda_param'' \<and> fst kv \<noteq> Some ''auto_iterate'') (s a)"
    by (simp add: initialize_opt_store popped_store_def remaining_fista_filter)
next
  assume "opt_name \<noteq> Some ''pogm'' \<and> opt_name \<noteq> Some ''fista''"
  then show "snd (initialize_opt opt_name grad_op linear_op prox_op x_init synthesis_init
             opt_kwargs metric_kwargs s) = s"
    by (simp add: initialize_opt_store popped_store_other)
next
  fix b
  assume "Some b \<noteq> opt_kwargs"
  then show "snd (initialize_opt opt_name grad_op linear_op prox_op x_init synthesis_init
             opt_kwargs metric_kwargs s) b = s b"
    by (rule initialize_opt_frame)
qed

text \<open>
  The amended claim C9 at a \<^verbatim>\<open>"pogm"\<close> call, a \<^verbatim>\<open>"fista"\<close> call and a \<^verbatim>\<open>"condat-vu"\<close> call
  with \<^verbatim>\<open>opt_kwargs = {"lambda_param": 0.5, "sigma_bar": 0.75, "verbose": 1}\<close>.
\<close>

theorem opt_kwargs_popped_witness:
  "\<not> False \<and> hasattr_linear_op ex_synthesis \<and>
   snd (initialize_opt (Some ''pogm'') ex_synthesis ex_linear (ProxOp 0) None False
          (Some 1) (Some 2) ex_store) 1 =
     [(Some ''lambda_param'', PyFloat (1 / 2)), (Some ''verbose'', PyInt 1)] \<and>
   snd (initialize_opt (Some ''pogm'') ex_synthesis ex_linear (ProxOp 0) None False
          (Some 1) (Some 2) ex_store) 2 = ex_store 2 \<and>
   snd (initialize_opt (Some ''fista'') ex_analysis ex_linear (ProxOp 0) None False
          (Some 1) (Some 2) ex_store) 1 =
     [(Some ''sigma_bar'', PyFloat (3 / 4)), (Some ''verbose'', PyInt 1)] \<and>
   snd (initialize_opt (Some ''condat-vu'') ex_analysis ex_linear (ProxOp 0) None False
          (Some 1) (Some 2) ex_store) = ex_store"
proof -
  have h: "hasattr_linear_op ex_synthesis"
    by (simp add: hasattr_linear_op_def ex_synthesis_def)
  have s1: "ex_store (Suc 0) =
      [(Some ''lambda_param'', PyFloat (1 / 2)), (Some ''sigma_bar'', PyFloat (3 / 4)),
       (Some ''verbose'', PyInt 1)]"
    by (simp add: ex_defs)
  show ?thesis
    using h
      opt_kwargs_popped [of "Some ''pogm''" False ex_synthesis ex_linear "ProxOp 0" None
        1 "Some 2" ex_store "Some 1"]
      opt_kwargs_popped [of "Some ''fista''" False ex_analysis ex_linear "ProxOp 0" None
        1 "Some 2" ex_store "Some 1"]
      opt_kwargs_popped [of "Some ''condat-vu''" False ex_analysis ex_linear "ProxOp 0" None
        1 "Some 2" ex_store "Some 1"]
    by (simp add: s1)
qed

text \<open>
  Claim C9 as stated fails twice. With \<^verbatim>\<open>"pogm"\<close> and a gradient operator without a
  \<^verbatim>\<open>linear_op\<close> attribute the call raises before the first \<^verbatim>\<open>pop\<close>, and
  \<^verbatim>\<open>opt_kwargs = {"sigma_bar": 0.75}\<close> keeps its key. When the same dictionary
  \<^verbatim>\<open>{"sigma_bar": 0.75}\<close> is passed as \<^verbatim>\<open>opt_kwargs\<close> and as \<^verbatim>\<open>metric_kwargs\<close>, the call
  returns a \<^verbatim>\<open>POGM\<close> instance and the dictionary, hence \<^verbatim>\<open>metric_kwargs\<close>, is left empty.
\<close>

theorem pop_counterexample:
  "initialize_opt (Some ''pogm'') ex_analysis ex_linear (ProxOp 0) None False
       (Some 5) None ex_store =
     (Inl (UnboundLocalError ''alpha_init''), ex_store) \<and>
   ex_store 5 = [(Some ''sigma_bar'', PyFloat (3 / 4))] \<and>
   fst (initialize_opt (Some ''pogm'') ex_synthesis ex_linear (ProxOp 0) (Some ex_zeros) False
          (Some 5) (Some 5) ex_store) =
     Inr (Instance POGM
            [(''u'', Arr (flatten ex_zeros)), (''x'', Arr (flatten ex_zeros)),
             (''y'', Arr (flatten ex_zeros)), (''z'', Arr (flatten ex_zeros)),
             (''grad'', Grad ex_synthesis), (''prox'', Prox (ProxOp 0)),
             (''linear'', Lin ex_linear), (''beta_param'', Val (PyFloat (1 / 2))),
             (''sigma_bar'', Val (PyFloat (3 / 4))), (''auto_iterate'', Val (PyBool False))]) \<and>
   snd (initialize_opt (Some ''pogm'') ex_synthesis ex_linear (ProxOp 0) (Some ex_zeros) False
          (Some 5) (Some 5) ex_store) 5 = []"
proof -
  have 1: "initialize_opt (Some ''pogm'') ex_analysis ex_linear (ProxOp 0) None False
       (Some 5) None ex_store = (Inl (UnboundLocalError ''alpha_init''), ex_store)"
    by (simp add: initialize_opt_def init_values_def hasattr_linear_op_def ex_analysis_def
        dispatch_pogm_unbound)
  have 2: "ex_store 5 = [(Some ''sigma_bar'', PyFloat (3 / 4))]"
    by (simp add: ex_defs)
  have 3: "initialize_opt (Some ''pogm'') ex_synthesis ex_linear (ProxOp 0) (Some ex_zeros) False
          (Some 5) (Some 5) ex_store =
     (Inr (Instance POGM
            [(''u'', Arr (flatten ex_zeros)), (''x'', Arr (flatten ex_zeros)),
             (''y'', Arr (flatten ex_zeros)), (''z'', Arr (flatten ex_zeros)),
             (''grad'', Grad ex_synthesis), (''prox'', Prox (ProxOp 0)),
             (''linear'', Lin ex_linear), (''beta_param'', Val (PyFloat (1 / 2))),
             (''sigma_bar'', Val (PyFloat (3 / 4))), (''auto_iterate'', Val (PyBool False))]),
      ex_store(5 := []))"
    by (simp add: model_defs Let_def 2 hasattr_linear_op_def ex_synthesis_def ex_linear_def)
  show ?thesis
    by (simp add: 1 2 3)
qed

end
